theory Spec2Isabelle
  imports Main "HOL-Library.Multiset"
begin

section \<open>Time, configuration and errors\<close>

text \<open>
  A Python \<^verbatim>\<open>datetime\<close> is the number of microseconds since the epoch and a
  \<^verbatim>\<open>timedelta\<close> a number of microseconds. Both types are bounded: a \<^verbatim>\<open>datetime\<close> lies
  between the first instant of year 1 and the last microsecond of year 9999, a
  \<^verbatim>\<open>timedelta\<close> within 999999999 days, and an operation that would leave the range raises
  \<^verbatim>\<open>OverflowError\<close>. The operations on API keys are handed the reading \<open>now\<close> of
  \<^verbatim>\<open>datetime.utcnow()\<close>, the few microseconds between their two readings not being
  modelled; \<open>create_access_token\<close> is handed each of its two readings.
  \<open>timegm\<close> is \<^verbatim>\<open>calendar.timegm(t.utctimetuple())\<close>: the whole seconds of an instant.
\<close>

type_synonym datetime = int
type_synonym timedelta = int

definition datetime_min :: datetime where
  "datetime_min = - 62135596800000000"

definition datetime_max :: datetime where
  "datetime_max = 253402300799999999"

definition timedelta_min :: timedelta where
  "timedelta_min = - 86399999913600000000"

definition timedelta_max :: timedelta where
  "timedelta_max = 86399999999999999999"

definition minutes :: "int \<Rightarrow> timedelta" where
  "minutes m = m * 60000000"

definition timegm :: "datetime \<Rightarrow> int" where
  "timegm t = t div 1000000"

text \<open>The part of \<^verbatim>\<open>app/core/config.py\<close> that the authorization core reads.\<close>

record settings =
  SECRET_KEY :: string
  ALGORITHM :: string
  ACCESS_TOKEN_EXPIRE_MINUTES :: int

text \<open>
  Exceptions are values. \<open>ExpiredSignatureError\<close> and \<open>JWTClaimsError\<close> are subclasses of
  \<open>JWTError\<close> in the token library, so \<^verbatim>\<open>except JWTError\<close> catches all three.
\<close>

datatype error =
    HTTPException (status_code: int) (detail: string) (headers: "(string \<times> string) list")
  | JWTError
  | ExpiredSignatureError
  | JWTClaimsError
  | ValidationError
  | IntegrityError
  | OverflowError

text \<open>\<^verbatim>\<open>timedelta(minutes=m)\<close> and \<^verbatim>\<open>t + delta\<close> on a \<^verbatim>\<open>datetime\<close>.\<close>

definition timedelta_minutes :: "int \<Rightarrow> error + timedelta" where
  "timedelta_minutes m =
     (if timedelta_min \<le> minutes m \<and> minutes m \<le> timedelta_max then Inr (minutes m)
      else Inl OverflowError)"

definition datetime_add :: "datetime \<Rightarrow> timedelta \<Rightarrow> error + datetime" where
  "datetime_add t delta =
     (if datetime_min \<le> t + delta \<and> t + delta \<le> datetime_max then Inr (t + delta)
      else Inl OverflowError)"

fun is_JWTError :: "error \<Rightarrow> bool" where
  "is_JWTError JWTError = True"
| "is_JWTError ExpiredSignatureError = True"
| "is_JWTError JWTClaimsError = True"
| "is_JWTError _ = False"

fun is_HTTPException :: "error \<Rightarrow> bool" where
  "is_HTTPException (HTTPException _ _ _) = True"
| "is_HTTPException _ = False"

section \<open>Data model (\<^verbatim>\<open>app/models\<close>)\<close>

text \<open>
  One record per mapped class, one field per column, and the eagerly loaded relationships
  (\<^verbatim>\<open>lazy="selectin"\<close>) as lists of the related rows. Nullable columns are options.
\<close>

record permission =
  p_id :: int
  p_name :: string
  p_description :: "string option"
  p_resource :: "string option"
  p_action :: "string option"

record role =
  r_id :: int
  r_name :: string
  r_description :: "string option"
  r_permissions :: "permission list"

record user =
  u_id :: int
  u_email :: string
  u_full_name :: "string option"
  u_avatar_url :: "string option"
  u_is_active :: bool
  u_is_superuser :: bool
  u_created_at :: datetime
  u_updated_at :: "datetime option"
  u_roles :: "role list"

record api_key =
  k_id :: int
  k_user_id :: "int option"
  k_key :: string
  k_name :: string
  k_description :: "string option"
  k_is_active :: bool
  k_expires_at :: "datetime option"
  k_last_used_at :: "datetime option"
  k_created_at :: datetime
  k_updated_at :: "datetime option"
  k_roles :: "role list"
  k_permissions :: "permission list"

record oauth_account =
  o_id :: int
  o_user_id :: int
  o_provider :: string
  o_provider_user_id :: string
  o_access_token :: "string option"
  o_refresh_token :: "string option"
  o_token_expires_at :: "datetime option"
  o_provider_data :: "(string \<times> string) list option"
  o_created_at :: datetime
  o_updated_at :: "datetime option"

text \<open>
  The store behind a \<^verbatim>\<open>Session\<close>: the tables as lists of rows (a query without
  \<^verbatim>\<open>ORDER BY\<close> enumerates a table in list order) and the database clock \<open>db_now\<close>
  that \<^verbatim>\<open>func.now()\<close> reads for \<^verbatim>\<open>server_default\<close> and \<^verbatim>\<open>onupdate\<close> columns.
\<close>

record db =
  users :: "user list"
  api_keys :: "api_key list"
  oauth_accounts :: "oauth_account list"
  roles :: "role list"
  db_now :: datetime

section \<open>API keys (\<^verbatim>\<open>app/crud/api_key.py\<close>, \<^verbatim>\<open>app/services/api_key_service.py\<close>)\<close>

definition get_by_key :: "db \<Rightarrow> string \<Rightarrow> api_key option" where
  "get_by_key d key = find (\<lambda>k. k_key k = key) (api_keys d)"

definition get_by_user :: "db \<Rightarrow> int \<Rightarrow> api_key list" where
  "get_by_user d uid = filter (\<lambda>k. k_user_id k = Some uid) (api_keys d)"

text \<open>
  \<^verbatim>\<open>is_valid\<close>: a \<^verbatim>\<open>datetime\<close> is always truthy, so \<^verbatim>\<open>api_key.expires_at and ...\<close> tests
  for \<^verbatim>\<open>None\<close> only.
\<close>

definition is_valid :: "api_key \<Rightarrow> datetime \<Rightarrow> bool" where
  "is_valid k now =
     (if \<not> k_is_active k then False
      else if (case k_expires_at k of None \<Rightarrow> False | Some e \<Rightarrow> e < now) then False
      else True)"

text \<open>
  An attribute assignment followed by \<^verbatim>\<open>db.commit()\<close> issues
  \<^verbatim>\<open>UPDATE api_keys SET ... WHERE id = :id\<close> for the columns whose value changed, and the
  \<^verbatim>\<open>onupdate=func.now()\<close> column \<^verbatim>\<open>updated_at\<close> rides along; with no changed column there
  is no statement. \<^verbatim>\<open>db.refresh\<close> returns the row as stored.
\<close>

definition update_api_key :: "db \<Rightarrow> int \<Rightarrow> (api_key \<Rightarrow> api_key) \<Rightarrow> db" where
  "update_api_key d i f =
     d\<lparr>api_keys := map (\<lambda>r. if k_id r = i then (f r)\<lparr>k_updated_at := Some (db_now d)\<rparr> else r)
                        (api_keys d)\<rparr>"

definition update_last_used :: "db \<Rightarrow> api_key \<Rightarrow> datetime \<Rightarrow> api_key \<times> db" where
  "update_last_used d k now =
     (if k_last_used_at k = Some now then (k, d)
      else (k\<lparr>k_last_used_at := Some now, k_updated_at := Some (db_now d)\<rparr>,
            update_api_key d (k_id k) (\<lambda>r. r\<lparr>k_last_used_at := Some now\<rparr>)))"

definition deactivate :: "db \<Rightarrow> api_key \<Rightarrow> api_key \<times> db" where
  "deactivate d k =
     (if k_is_active k = False then (k, d)
      else (k\<lparr>k_is_active := False, k_updated_at := Some (db_now d)\<rparr>,
            update_api_key d (k_id k) (\<lambda>r. r\<lparr>k_is_active := False\<rparr>)))"

definition activate :: "db \<Rightarrow> api_key \<Rightarrow> api_key \<times> db" where
  "activate d k =
     (if k_is_active k = True then (k, d)
      else (k\<lparr>k_is_active := True, k_updated_at := Some (db_now d)\<rparr>,
            update_api_key d (k_id k) (\<lambda>r. r\<lparr>k_is_active := True\<rparr>)))"

definition validate_api_key :: "db \<Rightarrow> string \<Rightarrow> datetime \<Rightarrow> api_key option \<times> db" where
  "validate_api_key d key now =
     (case get_by_key d key of
        None \<Rightarrow> (None, d)
      | Some k \<Rightarrow>
          if \<not> is_valid k now then (None, d)
          else (case update_last_used d k now of (k', d') \<Rightarrow> (Some k', d')))"

text \<open>
  Modelled from the spec: \<^verbatim>\<open>CRUDBase.get\<close> and \<^verbatim>\<open>CRUDBase.remove\<close> of
  \<^verbatim>\<open>app/crud/base.py\<close>, which is not among the sources. The spec's store collaborator offers
  a keyed lookup of an API key by id, and its \<^verbatim>\<open>delete(id, ownerId)\<close> is a hard delete.
\<close>

definition CRUDBase_get :: "db \<Rightarrow> int \<Rightarrow> api_key option" where
  "CRUDBase_get d i = find (\<lambda>k. k_id k = i) (api_keys d)"

definition CRUDBase_remove :: "db \<Rightarrow> int \<Rightarrow> db" where
  "CRUDBase_remove d i = d\<lparr>api_keys := filter (\<lambda>k. k_id k \<noteq> i) (api_keys d)\<rparr>"

definition not_found :: error where
  "not_found = HTTPException 404 ''API key not found'' []"

definition get_user_api_keys :: "db \<Rightarrow> int \<Rightarrow> api_key list" where
  "get_user_api_keys d uid = get_by_user d uid"

definition get_api_key :: "db \<Rightarrow> int \<Rightarrow> int \<Rightarrow> error + api_key" where
  "get_api_key d api_key_id uid =
     (case CRUDBase_get d api_key_id of
        None \<Rightarrow> Inl not_found
      | Some k \<Rightarrow> if k_user_id k \<noteq> Some uid then Inl not_found else Inr k)"

definition delete_api_key :: "db \<Rightarrow> int \<Rightarrow> int \<Rightarrow> (error + unit) \<times> db" where
  "delete_api_key d api_key_id uid =
     (case CRUDBase_get d api_key_id of
        None \<Rightarrow> (Inl not_found, d)
      | Some k \<Rightarrow>
          if k_user_id k \<noteq> Some uid then (Inl not_found, d)
          else (Inr (), CRUDBase_remove d api_key_id))"

definition toggle_api_key :: "db \<Rightarrow> int \<Rightarrow> int \<Rightarrow> bool \<Rightarrow> (error + api_key) \<times> db" where
  "toggle_api_key d api_key_id uid act =
     (case CRUDBase_get d api_key_id of
        None \<Rightarrow> (Inl not_found, d)
      | Some k \<Rightarrow>
          if k_user_id k \<noteq> Some uid then (Inl not_found, d)
          else (case (if act then activate d k else deactivate d k) of
                  (k', d') \<Rightarrow> (Inr k', d')))"

section \<open>Signed tokens (\<^verbatim>\<open>app/core/security.py\<close>)\<close>

text \<open>
  The payload of a token: the claims this program writes or reads. A key that a Python
  dictionary lacks is \<open>None\<close>. The subject is kept with its JSON type, because the token
  library looks at it. \<open>c_exp\<close> and \<open>c_iat\<close> are whole seconds, as they travel in a token.
\<close>

datatype subject = SubInt int | SubStr string

record claims =
  c_sub :: "subject option"
  c_email :: "string option"
  c_roles :: "string list option"
  c_permissions :: "string list option"
  c_exp :: "int option"
  c_iat :: "int option"

text \<open>
  The library \<^verbatim>\<open>jose\<close> is used through \<^verbatim>\<open>jwt.encode\<close> and \<^verbatim>\<open>jwt.decode\<close> and is modelled by
  its contract, with an ideal signature. A bearer string is either not a well-formed token
  (\<open>Malformed\<close>) or a header naming an algorithm, a payload, and a signature made with some
  key: \<open>JWS alg key c\<close>. A signature verifies under exactly the key and algorithm that made
  it. \<^verbatim>\<open>jwt.decode(token, key, algorithms)\<close> rejects a header algorithm outside
  \<^verbatim>\<open>algorithms\<close>, then a signature that does not verify, then validates the claims in the
  library's order: \<^verbatim>\<open>exp\<close> (\<^verbatim>\<open>if exp < now: raise ExpiredSignatureError\<close>, on whole
  seconds) and then \<^verbatim>\<open>sub\<close> (\<^verbatim>\<open>JWTClaimsError("Subject must be a string.")\<close>).
  \<open>ALGORITHM\<close> is taken to name an algorithm the library supports.
\<close>

datatype token = Malformed | JWS (jws_alg: string) (jws_key: string) (jws_claims: claims)

definition jwt_encode :: "claims \<Rightarrow> string \<Rightarrow> string \<Rightarrow> token" where
  "jwt_encode c key alg = JWS alg key c"

fun jwt_decode :: "token \<Rightarrow> string \<Rightarrow> string list \<Rightarrow> datetime \<Rightarrow> error + claims" where
  "jwt_decode Malformed key algorithms now = Inl JWTError"
| "jwt_decode (JWS alg k c) key algorithms now =
     (if alg \<notin> set algorithms then Inl JWTError
      else if k \<noteq> key then Inl JWTError
      else if (case c_exp c of None \<Rightarrow> False | Some e \<Rightarrow> e < timegm now)
        then Inl ExpiredSignatureError
      else if (case c_sub c of Some (SubInt _) \<Rightarrow> True | _ \<Rightarrow> False) then Inl JWTClaimsError
      else Inr c)"

text \<open>
  \<^verbatim>\<open>create_access_token\<close>: \<^verbatim>\<open>if expires_delta:\<close> is false for \<^verbatim>\<open>None\<close> and for a zero
  \<^verbatim>\<open>timedelta\<close>. \<open>now\<close> is the clock reading of the branch taken and \<open>now_iat\<close> the later
  reading that becomes \<^verbatim>\<open>iat\<close>. \<^verbatim>\<open>jwt.encode\<close> turns the two \<^verbatim>\<open>datetime\<close> values into
  whole seconds.
\<close>

definition create_access_token ::
  "settings \<Rightarrow> claims \<Rightarrow> timedelta option \<Rightarrow> datetime \<Rightarrow> datetime \<Rightarrow> error + token" where
  "create_access_token cfg data expires_delta now now_iat =
     (case (case expires_delta of
              Some delta \<Rightarrow>
                if delta \<noteq> 0 then datetime_add now delta
                else (case timedelta_minutes (ACCESS_TOKEN_EXPIRE_MINUTES cfg) of
                        Inl e \<Rightarrow> Inl e
                      | Inr default_delta \<Rightarrow> datetime_add now default_delta)
            | None \<Rightarrow>
                (case timedelta_minutes (ACCESS_TOKEN_EXPIRE_MINUTES cfg) of
                   Inl e \<Rightarrow> Inl e
                 | Inr default_delta \<Rightarrow> datetime_add now default_delta)) of
        Inl e \<Rightarrow> Inl e
      | Inr expire \<Rightarrow>
          (let to_encode = data\<lparr>c_exp := Some (timegm expire), c_iat := Some (timegm now_iat)\<rparr>
           in Inr (jwt_encode to_encode (SECRET_KEY cfg) (ALGORITHM cfg))))"

definition decode_access_token :: "settings \<Rightarrow> token \<Rightarrow> datetime \<Rightarrow> error + claims" where
  "decode_access_token cfg tok now = jwt_decode tok (SECRET_KEY cfg) [ALGORITHM cfg] now"

section \<open>Permission aggregation (\<^verbatim>\<open>app/models/user.py\<close>, \<^verbatim>\<open>app/models/api_key.py\<close>)\<close>

text \<open>
  Both properties end in \<^verbatim>\<open>list(set(perms))\<close>, whose order Python leaves open: the model
  keeps the set.
\<close>

definition User_permissions :: "user \<Rightarrow> permission set" where
  "User_permissions u = set (concat (map r_permissions (u_roles u)))"

definition all_permissions :: "api_key \<Rightarrow> permission set" where
  "all_permissions k = set (k_permissions k @ concat (map r_permissions (k_roles k)))"

section \<open>Users (\<^verbatim>\<open>app/crud/user.py\<close>)\<close>

definition get_by_email :: "db \<Rightarrow> string \<Rightarrow> user option" where
  "get_by_email d email = find (\<lambda>u. u_email u = email) (users d)"

text \<open>An autoincrement primary key: a positive number that no row of the table carries.\<close>

definition fresh_id :: "int list \<Rightarrow> int" where
  "fresh_id ids = fold max ids 0 + 1"

text \<open>
  \<^verbatim>\<open>create_with_role\<close>: the columns not given take their defaults (\<^verbatim>\<open>is_superuser\<close> false,
  \<^verbatim>\<open>created_at\<close> the database clock). \<^verbatim>\<open>email\<close> is unique, so the insert of a second row
  with a stored email fails.
\<close>

definition create_with_role ::
  "db \<Rightarrow> string \<Rightarrow> string option \<Rightarrow> string \<Rightarrow> error + user \<times> db" where
  "create_with_role d email full_name role_name =
     (let db_obj = \<lparr>u_id = fresh_id (map u_id (users d)), u_email = email,
                    u_full_name = full_name, u_avatar_url = None, u_is_active = True,
                    u_is_superuser = False, u_created_at = db_now d, u_updated_at = None,
                    u_roles = []\<rparr>;
          db_obj = (case find (\<lambda>r. r_name r = role_name) (roles d) of
                      Some r \<Rightarrow> db_obj\<lparr>u_roles := u_roles db_obj @ [r]\<rparr>
                    | None \<Rightarrow> db_obj)
      in if email \<in> set (map u_email (users d)) then Inl IntegrityError
         else Inr (db_obj, d\<lparr>users := users d @ [db_obj]\<rparr>))"

section \<open>Authentication service (\<^verbatim>\<open>app/services/auth_service.py\<close>)\<close>

text \<open>
  \<^verbatim>\<open>create_user_token\<close> collects the permission names in a Python set and writes
  \<^verbatim>\<open>list(permissions)\<close> into the token. The order of that list is open; the model lists
  each name once, in order of first occurrence, and no theorem below depends on the order.
\<close>

definition token_data :: "user \<Rightarrow> claims" where
  "token_data u =
     \<lparr>c_sub = Some (SubInt (u_id u)),
      c_email = Some (u_email u),
      c_roles = Some (map r_name (u_roles u)),
      c_permissions =
        Some (remdups (concat (map (\<lambda>r. map p_name (r_permissions r)) (u_roles u)))),
      c_exp = None, c_iat = None\<rparr>"

definition create_user_token ::
  "settings \<Rightarrow> user \<Rightarrow> datetime \<Rightarrow> datetime \<Rightarrow> error + token" where
  "create_user_token cfg u now now_iat =
     (case timedelta_minutes (ACCESS_TOKEN_EXPIRE_MINUTES cfg) of
        Inl e \<Rightarrow> Inl e
      | Inr expires_delta \<Rightarrow>
          create_access_token cfg (token_data u) (Some expires_delta) now now_iat)"

definition verify_user_active :: "user \<Rightarrow> error + unit" where
  "verify_user_active u =
     (if \<not> u_is_active u then Inl (HTTPException 403 ''Inactive user'' []) else Inr ())"

text \<open>Python truthiness of an optional string and of an optional dictionary.\<close>

fun truthy :: "'a list option \<Rightarrow> bool" where
  "truthy None = False"
| "truthy (Some xs) = (xs \<noteq> [])"

text \<open>
  \<^verbatim>\<open>create_or_get_user_from_oauth\<close>. \<^verbatim>\<open>UserCreate(email=...)\<close> validates the address with
  pydantic's \<^verbatim>\<open>EmailStr\<close>, which raises on an address it rejects and otherwise yields the
  address in normal form; that validator is the parameter \<open>EmailStr\<close>.
  \<^verbatim>\<open>email.split("@")[0]\<close> is the text before the first \<^verbatim>\<open>@\<close>. The two halves of the
  function are named: \<open>new_oauth_user\<close> is the body of \<^verbatim>\<open>if not user:\<close>, and
  \<open>link_oauth_account\<close> is the lookup, insert or update of the \<^verbatim>\<open>OAuthAccount\<close> row.
\<close>

definition update_user :: "db \<Rightarrow> int \<Rightarrow> (user \<Rightarrow> user) \<Rightarrow> db" where
  "update_user d i f =
     d\<lparr>users := map (\<lambda>r. if u_id r = i then (f r)\<lparr>u_updated_at := Some (db_now d)\<rparr> else r)
                     (users d)\<rparr>"

definition update_oauth_account :: "db \<Rightarrow> int \<Rightarrow> (oauth_account \<Rightarrow> oauth_account) \<Rightarrow> db" where
  "update_oauth_account d i f =
     d\<lparr>oauth_accounts :=
         map (\<lambda>r. if o_id r = i then (f r)\<lparr>o_updated_at := Some (db_now d)\<rparr> else r)
             (oauth_accounts d)\<rparr>"

definition new_oauth_user ::
  "(string \<Rightarrow> string option) \<Rightarrow> db \<Rightarrow> string \<Rightarrow> string option \<Rightarrow> string option
     \<Rightarrow> error + user \<times> db" where
  "new_oauth_user EmailStr d email full_name avatar_url =
     (case EmailStr email of
        None \<Rightarrow> Inl ValidationError
      | Some validated \<Rightarrow>
          (case create_with_role d validated
                  (if truthy full_name then full_name
                   else Some (takeWhile (\<lambda>c. c \<noteq> CHR ''@'') email))
                  ''user'' of
             Inl e \<Rightarrow> Inl e
           | Inr (u, d1) \<Rightarrow>
               if avatar_url = u_avatar_url u then Inr (u, d1)
               else Inr (u\<lparr>u_avatar_url := avatar_url, u_updated_at := Some (db_now d1)\<rparr>,
                         update_user d1 (u_id u) (\<lambda>r. r\<lparr>u_avatar_url := avatar_url\<rparr>))))"

definition link_oauth_account ::
  "db \<Rightarrow> user \<Rightarrow> string \<Rightarrow> string \<Rightarrow> string \<Rightarrow> string option
     \<Rightarrow> (string \<times> string) list option \<Rightarrow> db" where
  "link_oauth_account d u provider provider_user_id access_token refresh_token provider_data =
     (case find (\<lambda>a. o_user_id a = u_id u \<and> o_provider a = provider) (oauth_accounts d) of
        None \<Rightarrow>
          d\<lparr>oauth_accounts := oauth_accounts d @
              [\<lparr>o_id = fresh_id (map o_id (oauth_accounts d)), o_user_id = u_id u,
                o_provider = provider, o_provider_user_id = provider_user_id,
                o_access_token = Some access_token, o_refresh_token = refresh_token,
                o_token_expires_at = None, o_provider_data = provider_data,
                o_created_at = db_now d, o_updated_at = None\<rparr>]\<rparr>
      | Some oa \<Rightarrow>
          (let f = (\<lambda>r. (let r1 = r\<lparr>o_access_token := Some access_token\<rparr>;
                              r2 = (if truthy refresh_token
                                    then r1\<lparr>o_refresh_token := refresh_token\<rparr> else r1)
                          in if truthy provider_data
                             then r2\<lparr>o_provider_data := provider_data\<rparr> else r2))
           in if f oa = oa then d else update_oauth_account d (o_id oa) f))"

definition create_or_get_user_from_oauth ::
  "(string \<Rightarrow> string option) \<Rightarrow> db \<Rightarrow> string \<Rightarrow> string \<Rightarrow> string option \<Rightarrow> string option
     \<Rightarrow> string \<Rightarrow> string \<Rightarrow> string option \<Rightarrow> (string \<times> string) list option
     \<Rightarrow> error + user \<times> db" where
  "create_or_get_user_from_oauth EmailStr d provider email full_name avatar_url
       provider_user_id access_token refresh_token provider_data =
     (case (case get_by_email d email of
              None \<Rightarrow> new_oauth_user EmailStr d email full_name avatar_url
            | Some u \<Rightarrow> Inr (u, d)) of
        Inl e \<Rightarrow> Inl e
      | Inr (u, d1) \<Rightarrow>
          Inr (u, link_oauth_account d1 u provider provider_user_id access_token
                    refresh_token provider_data))"

section \<open>Request dependencies (\<^verbatim>\<open>app/api/deps.py\<close>)\<close>

text \<open>
  \<^verbatim>\<open>User.id == user_id\<close> compares the integer primary key with the token's subject. A
  number matches the equal key. A text is converted by the database to the column's type:
  the decimal numeral of a key matches that key. Other texts are taken to match no row; how
  a database engine treats them is outside the model.
\<close>

function str_nat :: "nat \<Rightarrow> string" where
  "str_nat n =
     (if n < 10 then [''0123456789'' ! n]
      else str_nat (n div 10) @ [''0123456789'' ! (n mod 10)])"
  by pat_completeness auto
termination
  by (relation "measure (\<lambda>n. n)") auto

declare str_nat.simps [simp del]

definition str_int :: "int \<Rightarrow> string" where
  "str_int i = (if i < 0 then CHR ''-'' # str_nat (nat (- i)) else str_nat (nat i))"

fun sql_id_eq :: "int \<Rightarrow> subject \<Rightarrow> bool" where
  "sql_id_eq i (SubInt j) = (i = j)"
| "sql_id_eq i (SubStr s) = (s = str_int i)"

text \<open>
  The bearer scheme yields \<^verbatim>\<open>None\<close> or a credentials object, which is truthy and carries
  the token; the key header yields \<^verbatim>\<open>None\<close> or a string, which is falsy when empty.
\<close>

definition get_current_user_from_jwt ::
  "settings \<Rightarrow> token option \<Rightarrow> db \<Rightarrow> datetime \<Rightarrow> error + user option" where
  "get_current_user_from_jwt cfg credentials d now =
     (case credentials of
        None \<Rightarrow> Inr None
      | Some tok \<Rightarrow>
          (case (case decode_access_token cfg tok now of
                   Inl e \<Rightarrow> Inl e
                 | Inr payload \<Rightarrow>
                     (case c_sub payload of
                        None \<Rightarrow> Inr None
                      | Some user_id \<Rightarrow>
                          (case find (\<lambda>u. sql_id_eq (u_id u) user_id) (users d) of
                             None \<Rightarrow> Inr None
                           | Some u \<Rightarrow>
                               (case verify_user_active u of
                                  Inl e \<Rightarrow> Inl e
                                | Inr _ \<Rightarrow> Inr (Some u))))) of
             Inl e \<Rightarrow> if is_JWTError e \<or> is_HTTPException e then Inr None else Inl e
           | Inr r \<Rightarrow> Inr r))"

definition get_current_user_from_apikey ::
  "string option \<Rightarrow> db \<Rightarrow> datetime \<Rightarrow> (error + user option) \<times> db" where
  "get_current_user_from_apikey api_key d now =
     (if \<not> truthy api_key then (Inr None, d)
      else (case validate_api_key d (the api_key) now of
              (None, d') \<Rightarrow> (Inr None, d')
            | (Some api_key_obj, d') \<Rightarrow>
                (case k_user_id api_key_obj of
                   None \<Rightarrow> (Inr None, d')
                 | Some uid \<Rightarrow>
                     if uid = 0 then (Inr None, d')
                     else (case find (\<lambda>u. u_id u = uid) (users d') of
                             None \<Rightarrow> (Inr None, d')
                           | Some u \<Rightarrow>
                               (case verify_user_active u of
                                  Inl e \<Rightarrow> (Inl e, d')
                                | Inr _ \<Rightarrow> (Inr (Some u), d'))))))"

definition get_current_user_jwt_required ::
  "settings \<Rightarrow> token option \<Rightarrow> db \<Rightarrow> datetime \<Rightarrow> error + user" where
  "get_current_user_jwt_required cfg credentials d now =
     (if credentials = None
      then Inl (HTTPException 401 ''JWT token required'' [(''WWW-Authenticate'', ''Bearer'')])
      else (case get_current_user_from_jwt cfg credentials d now of
              Inl e \<Rightarrow> Inl e
            | Inr None \<Rightarrow>
                Inl (HTTPException 401 ''Could not validate credentials''
                       [(''WWW-Authenticate'', ''Bearer'')])
            | Inr (Some u) \<Rightarrow> Inr u))"

definition get_current_user_apikey_required ::
  "string option \<Rightarrow> db \<Rightarrow> datetime \<Rightarrow> (error + user) \<times> db" where
  "get_current_user_apikey_required api_key d now =
     (if \<not> truthy api_key
      then (Inl (HTTPException 401 ''API key required'' [(''WWW-Authenticate'', ''ApiKey'')]), d)
      else (case get_current_user_from_apikey api_key d now of
              (Inl e, d') \<Rightarrow> (Inl e, d')
            | (Inr None, d') \<Rightarrow> (Inl (HTTPException 401 ''Invalid or expired API key'' []), d')
            | (Inr (Some u), d') \<Rightarrow> (Inr u, d')))"

definition get_current_user_either ::
  "settings \<Rightarrow> token option \<Rightarrow> string option \<Rightarrow> db \<Rightarrow> datetime \<Rightarrow> (error + user) \<times> db" where
  "get_current_user_either cfg credentials api_key d now =
     (case (if truthy api_key then get_current_user_from_apikey api_key d now
            else (Inr None, d)) of
        (Inl e, d') \<Rightarrow> (Inl e, d')
      | (Inr (Some u), d') \<Rightarrow> (Inr u, d')
      | (Inr None, d') \<Rightarrow>
          (case (if credentials \<noteq> None then get_current_user_from_jwt cfg credentials d' now
                 else Inr None) of
             Inl e \<Rightarrow> (Inl e, d')
           | Inr (Some u) \<Rightarrow> (Inr u, d')
           | Inr None \<Rightarrow>
               (Inl (HTTPException 401 ''Valid JWT token or API key required'' []), d')))"

text \<open>
  The two authorization checks. \<open>key_permissions\<close> and \<open>key_roles\<close> are the names that the
  \<^verbatim>\<open>if api_key:\<close> block adds to the empty set, \<open>jwt_permissions\<close> and \<open>jwt_roles\<close> the names
  that the \<^verbatim>\<open>if credentials and not ...:\<close> block adds; \<^verbatim>\<open>except JWTError: pass\<close> adds nothing.
  \<open>repr_list\<close> is Python's rendering of a list of strings inside the f-string:
  \<open>repr_str\<close> puts a string between single quotes, or between double quotes when it holds a
  single quote and no double quote, and escapes the quote in use, the backslash and the
  control characters; text outside ASCII is taken to be printable.
\<close>

definition key_permissions :: "api_key \<Rightarrow> string set" where
  "key_permissions api_key_obj =
     set (map p_name (k_permissions api_key_obj))
       \<union> set (concat (map (\<lambda>r. map p_name (r_permissions r)) (k_roles api_key_obj)))"

definition key_roles :: "api_key \<Rightarrow> string set" where
  "key_roles api_key_obj = set (map r_name (k_roles api_key_obj))"

definition jwt_permissions :: "settings \<Rightarrow> token \<Rightarrow> datetime \<Rightarrow> error + string set" where
  "jwt_permissions cfg tok now =
     (case decode_access_token cfg tok now of
        Inr payload \<Rightarrow> Inr (set (case c_permissions payload of None \<Rightarrow> [] | Some ps \<Rightarrow> ps))
      | Inl e \<Rightarrow> if is_JWTError e then Inr {} else Inl e)"

definition jwt_roles :: "settings \<Rightarrow> token \<Rightarrow> datetime \<Rightarrow> error + string set" where
  "jwt_roles cfg tok now =
     (case decode_access_token cfg tok now of
        Inr payload \<Rightarrow> Inr (set (case c_roles payload of None \<Rightarrow> [] | Some rs \<Rightarrow> rs))
      | Inl e \<Rightarrow> if is_JWTError e then Inr {} else Inl e)"

definition repr_quote :: "string \<Rightarrow> char" where
  "repr_quote s = (if CHR 0x27 \<in> set s \<and> CHR 0x22 \<notin> set s then CHR 0x22 else CHR 0x27)"

definition hex2 :: "nat \<Rightarrow> string" where
  "hex2 n = [''0123456789abcdef'' ! (n div 16), ''0123456789abcdef'' ! (n mod 16)]"

definition repr_char :: "char \<Rightarrow> char \<Rightarrow> string" where
  "repr_char q c =
     (if c = q \<or> c = CHR 0x5C then [CHR 0x5C, c]
      else if c = CHR 0x09 then [CHR 0x5C, CHR ''t'']
      else if c = CHR 0x0A then [CHR 0x5C, CHR ''n'']
      else if c = CHR 0x0D then [CHR 0x5C, CHR ''r'']
      else if of_char c < (32::nat) \<or> of_char c = (127::nat)
        then [CHR 0x5C, CHR ''x''] @ hex2 (of_char c)
      else [c])"

definition repr_str :: "string \<Rightarrow> string" where
  "repr_str s = [repr_quote s] @ concat (map (repr_char (repr_quote s)) s) @ [repr_quote s]"

fun repr_items :: "string list \<Rightarrow> string" where
  "repr_items [] = []"
| "repr_items [x] = repr_str x"
| "repr_items (x # xs) = repr_str x @ '', '' @ repr_items xs"

definition repr_list :: "string list \<Rightarrow> string" where
  "repr_list xs = ''['' @ repr_items xs @ '']''"

definition require_permissions ::
  "string list \<Rightarrow> settings \<Rightarrow> token option \<Rightarrow> string option \<Rightarrow> db \<Rightarrow> datetime
     \<Rightarrow> (error + bool) \<times> db" where
  "require_permissions required_permissions cfg credentials api_key d now =
     (case (if truthy api_key
            then (case validate_api_key d (the api_key) now of
                    (Some api_key_obj, d') \<Rightarrow> (key_permissions api_key_obj, d')
                  | (None, d') \<Rightarrow> ({}, d'))
            else ({}, d)) of
        (user_permissions, d') \<Rightarrow>
          (case (if credentials \<noteq> None \<and> user_permissions = {}
                 then jwt_permissions cfg (the credentials) now
                 else Inr user_permissions) of
             Inl e \<Rightarrow> (Inl e, d')
           | Inr user_permissions \<Rightarrow>
               if \<not> list_all (\<lambda>perm. perm \<in> user_permissions) required_permissions
               then (Inl (HTTPException 403
                            (''Missing required permissions: '' @ repr_list required_permissions)
                            []), d')
               else (Inr True, d')))"

definition require_roles ::
  "string list \<Rightarrow> settings \<Rightarrow> token option \<Rightarrow> string option \<Rightarrow> db \<Rightarrow> datetime
     \<Rightarrow> (error + bool) \<times> db" where
  "require_roles required_roles cfg credentials api_key d now =
     (case (if truthy api_key
            then (case validate_api_key d (the api_key) now of
                    (Some api_key_obj, d') \<Rightarrow> (key_roles api_key_obj, d')
                  | (None, d') \<Rightarrow> ({}, d'))
            else ({}, d)) of
        (user_roles, d') \<Rightarrow>
          (case (if credentials \<noteq> None \<and> user_roles = {}
                 then jwt_roles cfg (the credentials) now
                 else Inr user_roles) of
             Inl e \<Rightarrow> (Inl e, d')
           | Inr user_roles \<Rightarrow>
               if \<not> list_ex (\<lambda>role. role \<in> user_roles) required_roles
               then (Inl (HTTPException 403
                            (''Missing required roles: '' @ repr_list required_roles) []), d')
               else (Inr True, d')))"

section \<open>A small store\<close>

text \<open>
  Concrete data on which the theorems below are exercised: an administrator with an expiring
  key, a deactivated user with a key that carries one direct permission, and the secret and
  token lifetime of \<^verbatim>\<open>app/core/config.py\<close>.
\<close>

definition ex_cfg :: settings where
  "ex_cfg = \<lparr>SECRET_KEY = ''your-secret-key-change-in-production'', ALGORITHM = ''HS256'',
             ACCESS_TOKEN_EXPIRE_MINUTES = 30\<rparr>"

definition users_read :: permission where
  "users_read = \<lparr>p_id = 1, p_name = ''users:read'', p_description = None,
                 p_resource = Some ''users'', p_action = Some ''read''\<rparr>"

definition users_write :: permission where
  "users_write = \<lparr>p_id = 2, p_name = ''users:write'', p_description = None,
                  p_resource = Some ''users'', p_action = Some ''write''\<rparr>"

definition admin_role :: role where
  "admin_role = \<lparr>r_id = 1, r_name = ''admin'', r_description = None,
                 r_permissions = [users_read, users_write]\<rparr>"

definition user_role :: role where
  "user_role = \<lparr>r_id = 2, r_name = ''user'', r_description = None,
                r_permissions = [users_read]\<rparr>"

definition alice :: user where
  "alice = \<lparr>u_id = 1, u_email = ''admin@example.com'', u_full_name = Some ''Alice'',
            u_avatar_url = None, u_is_active = True, u_is_superuser = False, u_created_at = 0,
            u_updated_at = None, u_roles = [admin_role]\<rparr>"

definition bob :: user where
  "bob = \<lparr>u_id = 2, u_email = ''bob@example.com'', u_full_name = Some ''Bob'',
          u_avatar_url = None, u_is_active = False, u_is_superuser = False, u_created_at = 0,
          u_updated_at = None, u_roles = [user_role]\<rparr>"

definition alice_key :: api_key where
  "alice_key = \<lparr>k_id = 1, k_user_id = Some 1, k_key = ''KA'', k_name = ''ci'',
                k_description = None, k_is_active = True, k_expires_at = Some 5,
                k_last_used_at = None, k_created_at = 0, k_updated_at = None,
                k_roles = [admin_role], k_permissions = []\<rparr>"

definition bob_key :: api_key where
  "bob_key = \<lparr>k_id = 2, k_user_id = Some 2, k_key = ''KB'', k_name = ''cron'',
              k_description = None, k_is_active = True, k_expires_at = None,
              k_last_used_at = None, k_created_at = 0, k_updated_at = None,
              k_roles = [], k_permissions = [users_read]\<rparr>"

definition ex_db :: db where
  "ex_db = \<lparr>users = [alice, bob], api_keys = [alice_key, bob_key], oauth_accounts = [],
            roles = [admin_role, user_role], db_now = 99\<rparr>"

definition ex_claims :: claims where
  "ex_claims = \<lparr>c_sub = Some (SubStr ''2''), c_email = Some ''bob@example.com'',
                c_roles = Some [''user''], c_permissions = Some [''users:read''],
                c_exp = None, c_iat = None\<rparr>"

definition bob_token :: token where
  "bob_token = JWS ''HS256'' ''your-secret-key-change-in-production''
                 (ex_claims\<lparr>c_exp := Some 1800, c_iat := Some 0\<rparr>)"

section \<open>The access-control rule in the spec's words\<close>

text \<open>
  The spec resolves the calling credential's effective permission set by preferring the set
  derived from a presented key, the key's aggregated permissions, and by falling back to the
  claims embedded in the token only if no key was presented or the key yielded nothing. The
  same holds for roles. These definitions follow that wording; the theorems of C4 compare
  them with \<open>require_permissions\<close> and \<open>require_roles\<close>.
\<close>

definition spec_key_permissions :: "string option \<Rightarrow> db \<Rightarrow> datetime \<Rightarrow> string set" where
  "spec_key_permissions api_key d now =
     (if truthy api_key
      then (case fst (validate_api_key d (the api_key) now) of
              Some k \<Rightarrow> p_name ` all_permissions k
            | None \<Rightarrow> {})
      else {})"

definition spec_token_permissions :: "settings \<Rightarrow> token option \<Rightarrow> datetime \<Rightarrow> string set" where
  "spec_token_permissions cfg credentials now =
     (case credentials of
        None \<Rightarrow> {}
      | Some tok \<Rightarrow>
          (case decode_access_token cfg tok now of
             Inr payload \<Rightarrow> (case c_permissions payload of None \<Rightarrow> {} | Some ps \<Rightarrow> set ps)
           | Inl _ \<Rightarrow> {}))"

definition spec_effective_permissions ::
  "settings \<Rightarrow> token option \<Rightarrow> string option \<Rightarrow> db \<Rightarrow> datetime \<Rightarrow> string set" where
  "spec_effective_permissions cfg credentials api_key d now =
     (if spec_key_permissions api_key d now \<noteq> {} then spec_key_permissions api_key d now
      else spec_token_permissions cfg credentials now)"

definition spec_key_roles :: "string option \<Rightarrow> db \<Rightarrow> datetime \<Rightarrow> string set" where
  "spec_key_roles api_key d now =
     (if truthy api_key
      then (case fst (validate_api_key d (the api_key) now) of
              Some k \<Rightarrow> r_name ` set (k_roles k)
            | None \<Rightarrow> {})
      else {})"

definition spec_token_roles :: "settings \<Rightarrow> token option \<Rightarrow> datetime \<Rightarrow> string set" where
  "spec_token_roles cfg credentials now =
     (case credentials of
        None \<Rightarrow> {}
      | Some tok \<Rightarrow>
          (case decode_access_token cfg tok now of
             Inr payload \<Rightarrow> (case c_roles payload of None \<Rightarrow> {} | Some rs \<Rightarrow> set rs)
           | Inl _ \<Rightarrow> {}))"

definition spec_effective_roles ::
  "settings \<Rightarrow> token option \<Rightarrow> string option \<Rightarrow> db \<Rightarrow> datetime \<Rightarrow> string set" where
  "spec_effective_roles cfg credentials api_key d now =
     (if spec_key_roles api_key d now \<noteq> {} then spec_key_roles api_key d now
      else spec_token_roles cfg credentials now)"

section \<open>External-identity links in the spec's words\<close>

text \<open>
  Names for the statements about \<open>create_or_get_user_from_oauth\<close>: the link of a
  (principal, provider) pair as the query of the function finds it, the pair that identifies
  a link, the row that the function inserts, and the row after the three assignments of the
  \<^verbatim>\<open>else\<close> branch.
\<close>

definition link_of :: "db \<Rightarrow> int \<Rightarrow> string \<Rightarrow> oauth_account option" where
  "link_of d uid provider =
     find (\<lambda>a. o_user_id a = uid \<and> o_provider a = provider) (oauth_accounts d)"

definition new_link ::
  "db \<Rightarrow> int \<Rightarrow> string \<Rightarrow> string \<Rightarrow> string \<Rightarrow> string option
     \<Rightarrow> (string \<times> string) list option \<Rightarrow> oauth_account" where
  "new_link d uid provider provider_user_id access_token refresh_token provider_data =
     \<lparr>o_id = fresh_id (map o_id (oauth_accounts d)), o_user_id = uid,
      o_provider = provider, o_provider_user_id = provider_user_id,
      o_access_token = Some access_token, o_refresh_token = refresh_token,
      o_token_expires_at = None, o_provider_data = provider_data,
      o_created_at = db_now d, o_updated_at = None\<rparr>"

definition link_key :: "oauth_account \<Rightarrow> int \<times> string" where
  "link_key a = (o_user_id a, o_provider a)"

definition refreshed ::
  "string \<Rightarrow> string option \<Rightarrow> (string \<times> string) list option \<Rightarrow> oauth_account \<Rightarrow> oauth_account" where
  "refreshed access_token refresh_token provider_data a =
     a\<lparr>o_access_token := Some access_token,
       o_refresh_token := (if truthy refresh_token then refresh_token else o_refresh_token a),
       o_provider_data := (if truthy provider_data then provider_data else o_provider_data a)\<rparr>"

text \<open>A first login of a new address through one provider, on the small store.\<close>

definition carol :: user where
  "carol = \<lparr>u_id = 3, u_email = ''carol@example.com'', u_full_name = Some ''carol'',
            u_avatar_url = Some ''https://img.example.com/c'', u_is_active = True,
            u_is_superuser = False, u_created_at = 99, u_updated_at = Some 99,
            u_roles = [user_role]\<rparr>"

definition carol_google :: oauth_account where
  "carol_google = \<lparr>o_id = 1, o_user_id = 3, o_provider = ''google'',
                   o_provider_user_id = ''g-42'', o_access_token = Some ''ya29'',
                   o_refresh_token = None, o_token_expires_at = None, o_provider_data = None,
                   o_created_at = 99, o_updated_at = None\<rparr>"

definition carol_db :: db where
  "carol_db = ex_db\<lparr>users := [alice, bob, carol], oauth_accounts := [carol_google]\<rparr>"

text \<open>
  A validator in the manner of \<^verbatim>\<open>EmailStr\<close> on the addresses used below: it refuses a text
  without \<^verbatim>\<open>@\<close>, lower-cases the domain of \<^verbatim>\<open>carol@Example.COM\<close>, and returns every other
  address as it is.
\<close>

definition ex_EmailStr :: "string \<Rightarrow> string option" where
  "ex_EmailStr s =
     (if s = ''carol@Example.COM'' then Some ''carol@example.com''
      else if CHR ''@'' \<in> set s then Some s
      else None)"

section \<open>Validity of an API key\<close>

lemma is_valid_iff:
  "is_valid k now \<longleftrightarrow>
     k_is_active k \<and> (k_expires_at k = None \<or> (\<exists>e. k_expires_at k = Some e \<and> now \<le> e))"
  by (auto simp: is_valid_def split: option.splits)

lemma validate_api_key_Some_iff:
  "fst (validate_api_key d key now) \<noteq> None \<longleftrightarrow>
     (\<exists>r. get_by_key d key = Some r \<and> is_valid r now)"
  by (auto simp: validate_api_key_def split: option.splits prod.splits)

lemma validate_alice_key_at_3:
  "validate_api_key ex_db ''KA'' 3 =
     (Some (alice_key\<lparr>k_last_used_at := Some 3, k_updated_at := Some 99\<rparr>),
      ex_db\<lparr>api_keys :=
               [alice_key\<lparr>k_last_used_at := Some 3, k_updated_at := Some 99\<rparr>, bob_key]\<rparr>)"
  by (simp add: validate_api_key_def get_by_key_def ex_db_def alice_key_def bob_key_def
      is_valid_def update_last_used_def update_api_key_def)

lemma validate_alice_key_at_5:
  "validate_api_key ex_db ''KA'' 5 =
     (Some (alice_key\<lparr>k_last_used_at := Some 5, k_updated_at := Some 99\<rparr>),
      ex_db\<lparr>api_keys :=
               [alice_key\<lparr>k_last_used_at := Some 5, k_updated_at := Some 99\<rparr>, bob_key]\<rparr>)"
  by (simp add: validate_api_key_def get_by_key_def ex_db_def alice_key_def bob_key_def
      is_valid_def update_last_used_def update_api_key_def)

lemma validate_alice_key_at_6: "validate_api_key ex_db ''KA'' 6 = (None, ex_db)"
  by (simp add: validate_api_key_def get_by_key_def ex_db_def alice_key_def is_valid_def)

lemma validate_unknown_key: "validate_api_key ex_db ''unknown'' 3 = (None, ex_db)"
  by (simp add: validate_api_key_def get_by_key_def ex_db_def alice_key_def bob_key_def)

lemma is_valid_alice_key: "is_valid alice_key 5" "\<not> is_valid alice_key 6"
  by (simp_all add: is_valid_def alice_key_def)

text \<open>
  C3, as the spec states it, fails at the instant of expiry: \<^verbatim>\<open>is_valid\<close> rejects a key only
  when \<^verbatim>\<open>expires_at < now\<close>, so a key whose \<^verbatim>\<open>expires_at\<close> equals \<open>now\<close> still validates,
  although \<^verbatim>\<open>expires_at > now\<close> is false.
\<close>

theorem is_valid_at_expiry_instant:
  "is_valid alice_key 5 \<and> fst (validate_api_key ex_db ''KA'' 5) \<noteq> None \<and>
   \<not> (k_is_active alice_key \<and>
       (k_expires_at alice_key = None \<or> 5 < the (k_expires_at alice_key)))"
  by (simp add: is_valid_alice_key validate_alice_key_at_5) (simp add: alice_key_def)

text \<open>
  C3, amended: for every API key record and every instant \<open>now\<close>, the key is valid if and
  only if it is active and its \<^verbatim>\<open>expires_at\<close> is null or not earlier than \<open>now\<close>; a key
  whose \<^verbatim>\<open>expires_at\<close> lies in the past is invalid even when active; and
  \<^verbatim>\<open>validate_api_key\<close> succeeds exactly when the record that the store holds under the key
  string at that moment is valid.
\<close>

theorem api_key_validity:
  "(is_valid k now \<longleftrightarrow>
      k_is_active k \<and> (k_expires_at k = None \<or> (\<exists>e. k_expires_at k = Some e \<and> now \<le> e)))
   \<and> (k_expires_at k = Some e \<and> e < now \<longrightarrow> \<not> is_valid k now)
   \<and> (fst (validate_api_key d key now) \<noteq> None \<longleftrightarrow>
        (\<exists>r. get_by_key d key = Some r \<and> is_valid r now))"
  using is_valid_iff [of k now] validate_api_key_Some_iff [of d key now] by auto

theorem api_key_validity_witness:
  "is_valid alice_key 5 \<and> \<not> is_valid alice_key 6 \<and>
   fst (validate_api_key ex_db ''KA'' 5) \<noteq> None"
  using api_key_validity [of alice_key 5 5 ex_db "''KA''"]
    api_key_validity [of alice_key 6 5 ex_db "''KA''"]
  by (simp add: is_valid_alice_key validate_alice_key_at_5)

section \<open>What a validation writes\<close>

text \<open>
  C10, as the spec states it, fails on a successful validation: the \<^verbatim>\<open>UPDATE\<close> that stores
  \<^verbatim>\<open>last_used_at\<close> also stamps the key's \<^verbatim>\<open>updated_at\<close> column, declared with
  \<^verbatim>\<open>onupdate=func.now()\<close>.
\<close>

theorem validate_api_key_stamps_updated_at:
  "validate_api_key ex_db ''KA'' 3 =
     (Some (alice_key\<lparr>k_last_used_at := Some 3, k_updated_at := Some 99\<rparr>),
      ex_db\<lparr>api_keys :=
               [alice_key\<lparr>k_last_used_at := Some 3, k_updated_at := Some 99\<rparr>, bob_key]\<rparr>)
   \<and> k_updated_at (alice_key\<lparr>k_last_used_at := Some 3, k_updated_at := Some 99\<rparr>)
       \<noteq> k_updated_at alice_key"
  by (simp add: validate_alice_key_at_3) (simp add: alice_key_def)

text \<open>
  C10, amended: for every key string, \<^verbatim>\<open>validate_api_key\<close> returns \<^verbatim>\<open>None\<close> exactly when the
  key is unknown, inactive or expired, and then the store is unchanged, the looked-up key
  included. When validation succeeds, the store changes in the rows of the matched key's id
  only, and there in two columns only: \<^verbatim>\<open>last_used_at\<close>, set to the current time, and the
  automatically maintained \<^verbatim>\<open>updated_at\<close>, set to the database clock; every other table
  and every other row is as before.
\<close>

theorem validate_api_key_frame:
  "(fst (validate_api_key d key now) = None \<longrightarrow> snd (validate_api_key d key now) = d)
   \<and> (fst (validate_api_key d key now) = None \<longleftrightarrow>
        (case get_by_key d key of None \<Rightarrow> True | Some k \<Rightarrow> \<not> is_valid k now))
   \<and> (\<forall>k'. fst (validate_api_key d key now) = Some k' \<longrightarrow>
        (\<exists>k. get_by_key d key = Some k \<and> k_last_used_at k' = Some now \<and>
          k' = k\<lparr>k_last_used_at := k_last_used_at k', k_updated_at := k_updated_at k'\<rparr> \<and>
          snd (validate_api_key d key now) =
            d\<lparr>api_keys :=
                map (\<lambda>r. if k_id r = k_id k \<and> k_last_used_at k \<noteq> Some now
                         then r\<lparr>k_last_used_at := Some now, k_updated_at := Some (db_now d)\<rparr>
                         else r) (api_keys d)\<rparr>))"
  by (auto simp: validate_api_key_def update_last_used_def update_api_key_def
      split: option.splits if_splits)

theorem validate_api_key_frame_witness:
  "snd (validate_api_key ex_db ''KA'' 6) = ex_db \<and>
   snd (validate_api_key ex_db ''unknown'' 3) = ex_db \<and>
   snd (validate_api_key ex_db ''KA'' 3) =
     ex_db\<lparr>api_keys :=
             [alice_key\<lparr>k_last_used_at := Some 3, k_updated_at := Some 99\<rparr>, bob_key]\<rparr>"
  using validate_api_key_frame [of ex_db "''KA''" 6]
    validate_api_key_frame [of ex_db "''unknown''" 3]
    validate_api_key_frame [of ex_db "''KA''" 3]
  by (simp add: validate_alice_key_at_3 validate_alice_key_at_6 validate_unknown_key)

section \<open>Issuing and validating a token\<close>

lemma timegm_mono: "t \<le> t' \<Longrightarrow> timegm t \<le> timegm t'"
  by (simp add: timegm_def zdiv_mono1)

lemma timegm_later: "t + 1000000 \<le> t' \<Longrightarrow> timegm t < timegm t'"
proof -
  assume "t + 1000000 \<le> t'"
  then have "timegm (t + 1000000) \<le> timegm t'" by (rule timegm_mono)
  moreover have "timegm (t + 1000000) = timegm t + 1" by (simp add: timegm_def)
  ultimately show ?thesis by simp
qed

lemma decode_error_is_JWTError:
  "decode_access_token cfg tok now = Inl e \<Longrightarrow> is_JWTError e"
  by (cases tok) (auto simp: decode_access_token_def split: if_splits)

text \<open>What \<open>create_access_token\<close> returns for a non-zero TTL, and what decoding makes of it.\<close>

lemma create_access_token_ttl:
  "ttl \<noteq> 0 \<Longrightarrow>
   create_access_token cfg data (Some ttl) now now_iat =
     (if datetime_min \<le> now + ttl \<and> now + ttl \<le> datetime_max
      then Inr (JWS (ALGORITHM cfg) (SECRET_KEY cfg)
                  (data\<lparr>c_exp := Some (timegm (now + ttl)), c_iat := Some (timegm now_iat)\<rparr>))
      else Inl OverflowError)"
  by (simp add: create_access_token_def datetime_add_def jwt_encode_def)

lemma decode_own_token:
  "decode_access_token cfg (JWS (ALGORITHM cfg) (SECRET_KEY cfg) c) t =
     (if (case c_exp c of None \<Rightarrow> False | Some e \<Rightarrow> e < timegm t) then Inl ExpiredSignatureError
      else if (case c_sub c of Some (SubInt _) \<Rightarrow> True | _ \<Rightarrow> False) then Inl JWTClaimsError
      else Inr c)"
  by (simp add: decode_access_token_def)

lemma minutes_30: "minutes 30 = 1800000000"
  by (simp add: minutes_def)

lemma bob_token_issued:
  "create_access_token ex_cfg ex_claims (Some (minutes 30)) 0 0 = Inr bob_token"
  by (simp add: minutes_30 create_access_token_ttl datetime_min_def datetime_max_def)
     (simp add: bob_token_def ex_cfg_def timegm_def)

lemma bob_token_decodes:
  "decode_access_token ex_cfg bob_token 1000000 =
     Inr (ex_claims\<lparr>c_exp := Some 1800, c_iat := Some 0\<rparr>)"
  by (simp add: bob_token_def decode_access_token_def ex_cfg_def ex_claims_def timegm_def)

text \<open>
  For a claims dictionary whose subject is absent or a string, a non-zero TTL and an expiry
  inside the range of \<^verbatim>\<open>datetime\<close>, the round trip works on whole seconds: the claims come
  back, with the \<^verbatim>\<open>exp\<close> and \<^verbatim>\<open>iat\<close> of the issue, until the second of the expiry is over,
  and \<^verbatim>\<open>ExpiredSignatureError\<close> is raised from the next second on.
\<close>

lemma roundtrip_string_subject:
  assumes "ttl \<noteq> 0" "datetime_min \<le> now + ttl" "now + ttl \<le> datetime_max"
    and "\<forall>i. c_sub data \<noteq> Some (SubInt i)"
  shows "\<exists>tok. create_access_token cfg data (Some ttl) now now_iat = Inr tok \<and>
           decode_access_token cfg tok t =
             (if timegm (now + ttl) < timegm t then Inl ExpiredSignatureError
              else Inr (data\<lparr>c_exp := Some (timegm (now + ttl)),
                            c_iat := Some (timegm now_iat)\<rparr>))"
proof -
  have "\<not> (case c_sub data of Some (SubInt _) \<Rightarrow> True | _ \<Rightarrow> False)"
    using assms(4) by (auto split: option.splits subject.splits)
  then show ?thesis
    using assms(1-3) by (simp add: create_access_token_ttl decode_own_token)
qed

text \<open>What \<open>create_user_token\<close> returns: the subject of its token is the integer id.\<close>

lemma create_user_token_eq:
  "create_user_token cfg u now now_iat =
     (if timedelta_min \<le> minutes (ACCESS_TOKEN_EXPIRE_MINUTES cfg) \<and>
         minutes (ACCESS_TOKEN_EXPIRE_MINUTES cfg) \<le> timedelta_max \<and>
         datetime_min \<le> now + minutes (ACCESS_TOKEN_EXPIRE_MINUTES cfg) \<and>
         now + minutes (ACCESS_TOKEN_EXPIRE_MINUTES cfg) \<le> datetime_max
      then Inr (JWS (ALGORITHM cfg) (SECRET_KEY cfg)
                  ((token_data u)\<lparr>c_exp := Some (timegm (now + minutes
                                       (ACCESS_TOKEN_EXPIRE_MINUTES cfg))),
                                  c_iat := Some (timegm now_iat)\<rparr>))
      else Inl OverflowError)"
  by (simp add: create_user_token_def create_access_token_def timedelta_minutes_def
      datetime_add_def jwt_encode_def minutes_def)

lemma token_data_subject: "c_sub (token_data u) = Some (SubInt (u_id u))"
  by (simp add: token_data_def)

text \<open>
  C1 fails on every token the program issues. \<^verbatim>\<open>create_user_token\<close> writes the integer
  \<^verbatim>\<open>user.id\<close> into \<^verbatim>\<open>sub\<close>, and \<^verbatim>\<open>jwt.decode\<close> rejects a subject that is not a string: a
  token of \<^verbatim>\<open>create_user_token\<close> is never decoded, at any instant. Whenever the configured
  lifetime and the expiry are in range the token is issued, and decoding it before the TTL
  has elapsed raises \<^verbatim>\<open>JWTClaimsError\<close> where the claim promises the original claims.
\<close>

theorem issued_token_never_decodes:
  "(create_user_token cfg u now now_iat = Inr tok \<longrightarrow>
      (\<exists>e. decode_access_token cfg tok t = Inl e \<and> is_JWTError e))
   \<and> (timedelta_min \<le> minutes (ACCESS_TOKEN_EXPIRE_MINUTES cfg) \<and>
       minutes (ACCESS_TOKEN_EXPIRE_MINUTES cfg) \<le> timedelta_max \<and>
       datetime_min \<le> now + minutes (ACCESS_TOKEN_EXPIRE_MINUTES cfg) \<and>
       now + minutes (ACCESS_TOKEN_EXPIRE_MINUTES cfg) \<le> datetime_max \<longrightarrow>
        (\<exists>tok'. create_user_token cfg u now now_iat = Inr tok' \<and>
           (t < now + minutes (ACCESS_TOKEN_EXPIRE_MINUTES cfg) \<longrightarrow>
              decode_access_token cfg tok' t = Inl JWTClaimsError)))"
proof (intro conjI impI)
  assume "create_user_token cfg u now now_iat = Inr tok"
  then have "tok = JWS (ALGORITHM cfg) (SECRET_KEY cfg)
                  ((token_data u)\<lparr>c_exp := Some (timegm (now + minutes
                                       (ACCESS_TOKEN_EXPIRE_MINUTES cfg))),
                                  c_iat := Some (timegm now_iat)\<rparr>)"
    by (simp add: create_user_token_eq split: if_splits)
  then show "\<exists>e. decode_access_token cfg tok t = Inl e \<and> is_JWTError e"
    by (simp add: decode_own_token token_data_subject)
next
  let ?life = "minutes (ACCESS_TOKEN_EXPIRE_MINUTES cfg)"
  let ?tok = "JWS (ALGORITHM cfg) (SECRET_KEY cfg)
                ((token_data u)\<lparr>c_exp := Some (timegm (now + ?life)),
                                c_iat := Some (timegm now_iat)\<rparr>)"
  assume "timedelta_min \<le> ?life \<and> ?life \<le> timedelta_max \<and>
          datetime_min \<le> now + ?life \<and> now + ?life \<le> datetime_max"
  then have issued: "create_user_token cfg u now now_iat = Inr ?tok"
    by (simp add: create_user_token_eq)
  have "decode_access_token cfg ?tok t = Inl JWTClaimsError" if "t < now + ?life"
  proof -
    from that have "timegm t \<le> timegm (now + ?life)" by (simp add: timegm_mono)
    then show ?thesis by (simp add: decode_own_token token_data_subject)
  qed
  with issued show "\<exists>tok'. create_user_token cfg u now now_iat = Inr tok' \<and>
           (t < now + ?life \<longrightarrow> decode_access_token cfg tok' t = Inl JWTClaimsError)"
    by blast
qed

lemma alice_token_issued:
  "create_user_token ex_cfg alice 0 0 =
     Inr (JWS ''HS256'' ''your-secret-key-change-in-production''
            ((token_data alice)\<lparr>c_exp := Some 1800, c_iat := Some 0\<rparr>))"
  by (simp add: create_user_token_eq)
     (simp add: ex_cfg_def minutes_def timegm_def timedelta_min_def timedelta_max_def
        datetime_min_def datetime_max_def)

theorem issued_token_never_decodes_witness:
  "create_user_token ex_cfg alice 0 0 =
     Inr (JWS ''HS256'' ''your-secret-key-change-in-production''
            ((token_data alice)\<lparr>c_exp := Some 1800, c_iat := Some 0\<rparr>))
   \<and> decode_access_token ex_cfg
        (JWS ''HS256'' ''your-secret-key-change-in-production''
           ((token_data alice)\<lparr>c_exp := Some 1800, c_iat := Some 0\<rparr>)) 1000000
       = Inl JWTClaimsError"
proof (intro conjI)
  let ?tok = "JWS ''HS256'' ''your-secret-key-change-in-production''
                ((token_data alice)\<lparr>c_exp := Some 1800, c_iat := Some 0\<rparr>)"
  show issued: "create_user_token ex_cfg alice 0 0 = Inr ?tok"
    by (rule alice_token_issued)
  have range: "timedelta_min \<le> minutes (ACCESS_TOKEN_EXPIRE_MINUTES ex_cfg) \<and>
       minutes (ACCESS_TOKEN_EXPIRE_MINUTES ex_cfg) \<le> timedelta_max \<and>
       datetime_min \<le> 0 + minutes (ACCESS_TOKEN_EXPIRE_MINUTES ex_cfg) \<and>
       0 + minutes (ACCESS_TOKEN_EXPIRE_MINUTES ex_cfg) \<le> datetime_max"
    by (simp add: ex_cfg_def minutes_def timedelta_min_def timedelta_max_def
        datetime_min_def datetime_max_def)
  have before: "(1000000::int) < 0 + minutes (ACCESS_TOKEN_EXPIRE_MINUTES ex_cfg)"
    by (simp add: ex_cfg_def minutes_def)
  show "decode_access_token ex_cfg ?tok 1000000 = Inl JWTClaimsError"
    using issued_token_never_decodes [of ex_cfg alice 0 0 ?tok 1000000] issued range before
    by auto
qed

section \<open>The token path\<close>

lemma from_jwt_never_raises:
  "\<exists>r. get_current_user_from_jwt cfg credentials d now = Inr r"
  by (auto simp: get_current_user_from_jwt_def verify_user_active_def
      split: option.splits sum.splits dest: decode_error_is_JWTError)

lemma from_jwt_decode_error:
  "decode_access_token cfg tok now = Inl e \<Longrightarrow>
     get_current_user_from_jwt cfg (Some tok) d now = Inr None"
  by (auto simp: get_current_user_from_jwt_def dest: decode_error_is_JWTError)

lemma from_jwt_decoded:
  "decode_access_token cfg tok now = Inr p \<Longrightarrow>
     get_current_user_from_jwt cfg (Some tok) d now =
       (case c_sub p of
          None \<Rightarrow> Inr None
        | Some s \<Rightarrow>
            (case find (\<lambda>u. sql_id_eq (u_id u) s) (users d) of
               None \<Rightarrow> Inr None
             | Some u \<Rightarrow> if u_is_active u then Inr (Some u) else Inr None))"
  by (auto simp: get_current_user_from_jwt_def verify_user_active_def split: option.splits)

lemma str_int_small: "str_int 1 = ''1''" "str_int 2 = ''2''"
  by (simp_all add: str_int_def str_nat.simps)

text \<open>
  C8: \<^verbatim>\<open>get_current_user_from_jwt\<close> returns for every input and never raises. It returns
  \<^verbatim>\<open>None\<close> for a missing token, for a malformed one, for one signed with another key or
  naming another algorithm, for an expired one, and for a valid one whose subject is absent
  or matches no stored user.
\<close>

theorem get_current_user_from_jwt_total:
  "(\<exists>r. get_current_user_from_jwt cfg credentials d now = Inr r)
   \<and> get_current_user_from_jwt cfg None d now = Inr None
   \<and> get_current_user_from_jwt cfg (Some Malformed) d now = Inr None
   \<and> (k \<noteq> SECRET_KEY cfg \<or> alg \<noteq> ALGORITHM cfg \<longrightarrow>
        get_current_user_from_jwt cfg (Some (JWS alg k c)) d now = Inr None)
   \<and> (c_exp c = Some e \<and> e < timegm now \<longrightarrow>
        get_current_user_from_jwt cfg (Some (JWS alg k c)) d now = Inr None)
   \<and> (decode_access_token cfg tok now = Inr p \<and>
        (c_sub p = None \<or>
         (\<exists>s. c_sub p = Some s \<and> find (\<lambda>u. sql_id_eq (u_id u) s) (users d) = None)) \<longrightarrow>
        get_current_user_from_jwt cfg (Some tok) d now = Inr None)"
proof (intro conjI impI)
  show "\<exists>r. get_current_user_from_jwt cfg credentials d now = Inr r"
    by (rule from_jwt_never_raises)
  show "get_current_user_from_jwt cfg None d now = Inr None"
    by (simp add: get_current_user_from_jwt_def)
  show "get_current_user_from_jwt cfg (Some Malformed) d now = Inr None"
    by (rule from_jwt_decode_error [where e = JWTError]) (simp add: decode_access_token_def)
next
  assume "k \<noteq> SECRET_KEY cfg \<or> alg \<noteq> ALGORITHM cfg"
  then have "decode_access_token cfg (JWS alg k c) now = Inl JWTError"
    by (auto simp: decode_access_token_def)
  then show "get_current_user_from_jwt cfg (Some (JWS alg k c)) d now = Inr None"
    by (rule from_jwt_decode_error)
next
  assume "c_exp c = Some e \<and> e < timegm now"
  then have "\<exists>err. decode_access_token cfg (JWS alg k c) now = Inl err"
    by (auto simp: decode_access_token_def)
  then show "get_current_user_from_jwt cfg (Some (JWS alg k c)) d now = Inr None"
    by (auto intro: from_jwt_decode_error)
next
  assume "decode_access_token cfg tok now = Inr p \<and>
        (c_sub p = None \<or>
         (\<exists>s. c_sub p = Some s \<and> find (\<lambda>u. sql_id_eq (u_id u) s) (users d) = None))"
  then show "get_current_user_from_jwt cfg (Some tok) d now = Inr None"
    by (auto simp: from_jwt_decoded)
qed

theorem get_current_user_from_jwt_total_witness:
  "get_current_user_from_jwt ex_cfg (Some (JWS ''none'' [] ex_claims)) ex_db 7 = Inr None \<and>
   get_current_user_from_jwt ex_cfg
     (Some (JWS ''HS256'' (SECRET_KEY ex_cfg) (ex_claims\<lparr>c_exp := Some 5\<rparr>))) ex_db 6000000
     = Inr None \<and>
   get_current_user_from_jwt ex_cfg
     (Some (JWS ''HS256'' (SECRET_KEY ex_cfg) (ex_claims\<lparr>c_sub := Some (SubStr ''7'')\<rparr>)))
     ex_db 7 = Inr None"
  using get_current_user_from_jwt_total [of ex_cfg None ex_db 7 "[]" "''none''" ex_claims 0
      Malformed ex_claims]
    get_current_user_from_jwt_total [of ex_cfg None ex_db 6000000 "SECRET_KEY ex_cfg" "''HS256''"
      "ex_claims\<lparr>c_exp := Some 5\<rparr>" 5 Malformed ex_claims]
    get_current_user_from_jwt_total [of ex_cfg None ex_db 7 "SECRET_KEY ex_cfg" "''HS256''"
      ex_claims 0 "JWS ''HS256'' (SECRET_KEY ex_cfg) (ex_claims\<lparr>c_sub := Some (SubStr ''7'')\<rparr>)"
      "ex_claims\<lparr>c_sub := Some (SubStr ''7'')\<rparr>"]
  by (simp add: decode_access_token_def ex_cfg_def ex_claims_def timegm_def ex_db_def alice_def
      bob_def str_int_small)

section \<open>Resolving a deactivated principal\<close>

lemma validate_api_key_users: "users (snd (validate_api_key d key now)) = users d"
  by (auto simp: validate_api_key_def update_last_used_def update_api_key_def
      split: option.splits)

lemma from_apikey_inactive:
  assumes "key \<noteq> []" "fst (validate_api_key d key now) = Some k" "k_user_id k = Some uid"
    "uid \<noteq> 0" "find (\<lambda>u. u_id u = uid) (users d) = Some u" "\<not> u_is_active u"
  shows "fst (get_current_user_from_apikey (Some key) d now) =
           Inl (HTTPException 403 ''Inactive user'' [])"
proof -
  obtain d' where v: "validate_api_key d key now = (Some k, d')"
    using assms(2) by (cases "validate_api_key d key now") auto
  have "users d' = users d" using validate_api_key_users [of d key now] v by simp
  then show ?thesis
    using assms v by (simp add: get_current_user_from_apikey_def verify_user_active_def)
qed

lemma apikey_required_error:
  "key \<noteq> [] \<Longrightarrow> fst (get_current_user_from_apikey (Some key) d now) = Inl e \<Longrightarrow>
     fst (get_current_user_apikey_required (Some key) d now) = Inl e"
  by (auto simp: get_current_user_apikey_required_def
      split: prod.splits sum.splits option.splits)

lemma either_error:
  "key \<noteq> [] \<Longrightarrow> fst (get_current_user_from_apikey (Some key) d now) = Inl e \<Longrightarrow>
     fst (get_current_user_either cfg credentials (Some key) d now) = Inl e"
  by (auto simp: get_current_user_either_def split: prod.splits sum.splits option.splits)

lemma from_jwt_inactive:
  assumes "decode_access_token cfg tok now = Inr p" "c_sub p = Some s"
    "find (\<lambda>u. sql_id_eq (u_id u) s) (users d) = Some u" "\<not> u_is_active u"
  shows "get_current_user_from_jwt cfg (Some tok) d now = Inr None"
  using assms by (simp add: from_jwt_decoded)

lemma jwt_required_None:
  "get_current_user_from_jwt cfg (Some tok) d now = Inr None \<Longrightarrow>
   get_current_user_jwt_required cfg (Some tok) d now =
     Inl (HTTPException 401 ''Could not validate credentials''
            [(''WWW-Authenticate'', ''Bearer'')])"
  by (simp add: get_current_user_jwt_required_def)

lemma bob_token_resolution:
  "get_current_user_from_jwt ex_cfg (Some bob_token) ex_db 1000000 = Inr None"
  by (simp add: from_jwt_decoded [OF bob_token_decodes] ex_claims_def ex_db_def alice_def
      bob_def str_int_small)

lemma validate_bob_key:
  "validate_api_key ex_db ''KB'' 3 =
     (Some (bob_key\<lparr>k_last_used_at := Some 3, k_updated_at := Some 99\<rparr>),
      ex_db\<lparr>api_keys :=
               [alice_key, bob_key\<lparr>k_last_used_at := Some 3, k_updated_at := Some 99\<rparr>]\<rparr>)"
  by (simp add: validate_api_key_def get_by_key_def ex_db_def alice_key_def bob_key_def
      is_valid_def update_last_used_def update_api_key_def)

lemma find_bob_by_id: "find (\<lambda>u. u_id u = 2) (users ex_db) = Some bob"
  by (simp add: ex_db_def alice_def bob_def)

lemma bob_inactive: "\<not> u_is_active bob"
  by (simp add: bob_def)

text \<open>
  C2, as the spec states it, fails on the token path. The token of the deactivated user is
  valid and decodes, the user is found, and \<^verbatim>\<open>verify_user_active\<close> raises the 403; but the
  \<^verbatim>\<open>except (JWTError, HTTPException)\<close> of \<^verbatim>\<open>get_current_user_from_jwt\<close> catches it and
  returns \<^verbatim>\<open>None\<close>, which \<^verbatim>\<open>get_current_user_jwt_required\<close> reports as the generic 401.
\<close>

theorem inactive_token_path_is_unauthorized:
  "\<not> u_is_active bob \<and>
   decode_access_token ex_cfg bob_token 1000000 =
     Inr (ex_claims\<lparr>c_exp := Some 1800, c_iat := Some 0\<rparr>) \<and>
   get_current_user_from_jwt ex_cfg (Some bob_token) ex_db 1000000 = Inr None \<and>
   get_current_user_jwt_required ex_cfg (Some bob_token) ex_db 1000000 =
     Inl (HTTPException 401 ''Could not validate credentials''
            [(''WWW-Authenticate'', ''Bearer'')])"
  by (simp add: bob_inactive bob_token_decodes bob_token_resolution jwt_required_None)

text \<open>
  C2, amended: for every Principal whose \<^verbatim>\<open>is_active\<close> flag is false, every resolution
  through the key path with a valid API key of that Principal fails with the distinct
  \<^verbatim>\<open>InactivePrincipal\<close> error (HTTP 403, "Inactive user"), also under the enforcement
  wrappers; every resolution through the token path with a valid token of that Principal
  yields no principal (\<^verbatim>\<open>None\<close>), which the token-required wrapper reports as HTTP 401
  "Could not validate credentials".
\<close>

theorem inactive_principal_resolution:
  "(key \<noteq> [] \<and> fst (validate_api_key d key now) = Some k \<and> k_user_id k = Some uid \<and>
    uid \<noteq> 0 \<and> find (\<lambda>u. u_id u = uid) (users d) = Some u \<and> \<not> u_is_active u \<longrightarrow>
      fst (get_current_user_from_apikey (Some key) d now) =
        Inl (HTTPException 403 ''Inactive user'' []) \<and>
      fst (get_current_user_apikey_required (Some key) d now) =
        Inl (HTTPException 403 ''Inactive user'' []) \<and>
      fst (get_current_user_either cfg credentials (Some key) d now) =
        Inl (HTTPException 403 ''Inactive user'' []))
   \<and> (decode_access_token cfg tok now = Inr p \<and> c_sub p = Some s \<and>
       find (\<lambda>u. sql_id_eq (u_id u) s) (users d) = Some v \<and> \<not> u_is_active v \<longrightarrow>
      get_current_user_from_jwt cfg (Some tok) d now = Inr None \<and>
      get_current_user_jwt_required cfg (Some tok) d now =
        Inl (HTTPException 401 ''Could not validate credentials''
               [(''WWW-Authenticate'', ''Bearer'')]))"
  using from_apikey_inactive [of key d now k uid u]
    apikey_required_error [of key d now] either_error [of key d now]
    from_jwt_inactive [of cfg tok now p s d v] jwt_required_None [of cfg tok d now]
  by blast

theorem inactive_principal_resolution_witness:
  "fst (get_current_user_from_apikey (Some ''KB'') ex_db 3) =
     Inl (HTTPException 403 ''Inactive user'' []) \<and>
   get_current_user_from_jwt ex_cfg (Some bob_token) ex_db 1000000 = Inr None"
  using inactive_principal_resolution [where key = "''KB''" and d = ex_db and now = 3
      and k = "bob_key\<lparr>k_last_used_at := Some 3, k_updated_at := Some 99\<rparr>" and uid = 2
      and u = bob and cfg = ex_cfg and credentials = None]
    inactive_principal_resolution [where d = ex_db and cfg = ex_cfg and tok = bob_token
      and now = 1000000 and p = "ex_claims\<lparr>c_exp := Some 1800, c_iat := Some 0\<rparr>"
      and s = "SubStr ''2''" and v = bob]
  by (simp add: validate_bob_key find_bob_by_id bob_inactive bob_token_decodes)
     (simp add: bob_key_def ex_claims_def ex_db_def alice_def bob_def str_int_small)

section \<open>Permission aggregation\<close>

lemma User_permissions_union:
  "User_permissions u = (\<Union>r \<in> set (u_roles u). set (r_permissions r))"
  by (auto simp: User_permissions_def)

lemma token_permissions_set:
  "set (the (c_permissions (token_data u))) = p_name ` User_permissions u"
  by (auto simp: token_data_def User_permissions_def)

text \<open>
  C5: the permissions of a Principal are the union of the permissions of its roles, without
  duplicates, and the result does not change when the role list is permuted or lists a role
  more than once; the permission names that \<^verbatim>\<open>create_user_token\<close> writes into a token are the
  names of that set, each once.
\<close>

theorem principal_aggregation:
  "User_permissions u = (\<Union>r \<in> set (u_roles u). set (r_permissions r))
   \<and> (mset rs = mset (u_roles u) \<longrightarrow> User_permissions (u\<lparr>u_roles := rs\<rparr>) = User_permissions u)
   \<and> (set rs = set (u_roles u) \<longrightarrow> User_permissions (u\<lparr>u_roles := rs\<rparr>) = User_permissions u)
   \<and> set (the (c_permissions (token_data u))) = p_name ` User_permissions u
   \<and> distinct (the (c_permissions (token_data u)))
   \<and> (set rs = set (u_roles u) \<longrightarrow>
        set (the (c_permissions (token_data (u\<lparr>u_roles := rs\<rparr>)))) =
        set (the (c_permissions (token_data u))))"
proof (intro conjI impI)
  show "User_permissions u = (\<Union>r \<in> set (u_roles u). set (r_permissions r))"
    by (rule User_permissions_union)
  show "set (the (c_permissions (token_data u))) = p_name ` User_permissions u"
    by (rule token_permissions_set)
  show "distinct (the (c_permissions (token_data u)))"
    by (simp add: token_data_def)
next
  assume "mset rs = mset (u_roles u)"
  then have "set rs = set (u_roles u)" by (rule mset_eq_setD)
  then show "User_permissions (u\<lparr>u_roles := rs\<rparr>) = User_permissions u"
    by (simp add: User_permissions_union)
next
  assume "set rs = set (u_roles u)"
  then show "User_permissions (u\<lparr>u_roles := rs\<rparr>) = User_permissions u"
    by (simp add: User_permissions_union)
next
  assume "set rs = set (u_roles u)"
  then show "set (the (c_permissions (token_data (u\<lparr>u_roles := rs\<rparr>)))) =
        set (the (c_permissions (token_data u)))"
    by (simp add: token_permissions_set User_permissions_union)
qed

lemma alice_perms: "User_permissions alice = {users_read, users_write}"
  by (simp add: User_permissions_def alice_def admin_role_def)

theorem principal_aggregation_witness:
  "User_permissions (alice\<lparr>u_roles := [user_role, admin_role, user_role]\<rparr>) =
     User_permissions (alice\<lparr>u_roles := [admin_role, user_role]\<rparr>)
   \<and> User_permissions (alice\<lparr>u_roles := [user_role, admin_role]\<rparr>) =
     User_permissions (alice\<lparr>u_roles := [admin_role, user_role]\<rparr>)"
  using principal_aggregation [of "alice\<lparr>u_roles := [admin_role, user_role]\<rparr>" "[user_role, admin_role, user_role]"]
   principal_aggregation [of "alice\<lparr>u_roles := [admin_role, user_role]\<rparr>" "[user_role, admin_role]"]
  by auto

text \<open>
  C6: the permissions of an API key are its direct grants together with the permissions of
  each attached role, so they include the direct grants and the permissions of every attached
  role; the names that the permission check collects for a key are the names of that set.
\<close>

theorem api_key_aggregation:
  "all_permissions k = set (k_permissions k) \<union> (\<Union>r \<in> set (k_roles k). set (r_permissions r))
   \<and> set (k_permissions k) \<subseteq> all_permissions k
   \<and> (\<forall>r \<in> set (k_roles k). set (r_permissions r) \<subseteq> all_permissions k)
   \<and> key_permissions k = p_name ` all_permissions k"
  by (auto simp: all_permissions_def key_permissions_def)

theorem api_key_aggregation_witness:
  "set (r_permissions admin_role) \<subseteq> all_permissions alice_key \<and>
   set (k_permissions bob_key) \<subseteq> all_permissions bob_key"
  using api_key_aggregation [of alice_key] api_key_aggregation [of bob_key]
  by (simp add: alice_key_def)

section \<open>Permission and role checks\<close>

lemma key_permissions_all: "key_permissions k = p_name ` all_permissions k"
  by (auto simp: key_permissions_def all_permissions_def)

lemma jwt_permissions_eq:
  "jwt_permissions cfg tok now = Inr (spec_token_permissions cfg (Some tok) now)"
  by (auto simp: jwt_permissions_def spec_token_permissions_def
      split: sum.splits option.splits dest: decode_error_is_JWTError)

lemma jwt_roles_eq:
  "jwt_roles cfg tok now = Inr (spec_token_roles cfg (Some tok) now)"
  by (auto simp: jwt_roles_def spec_token_roles_def
      split: sum.splits option.splits dest: decode_error_is_JWTError)

lemma require_permissions_eq:
  "fst (require_permissions rp cfg credentials api_key d now) =
     (if set rp \<subseteq> spec_effective_permissions cfg credentials api_key d now then Inr True
      else Inl (HTTPException 403 (''Missing required permissions: '' @ repr_list rp) []))"
proof (cases credentials)
  case None
  then show ?thesis
    by (auto simp: require_permissions_def spec_effective_permissions_def
        spec_key_permissions_def spec_token_permissions_def key_permissions_all
        list_all_iff subset_iff split: prod.splits option.splits)
next
  case (Some tok)
  then show ?thesis
    by (auto simp: require_permissions_def spec_effective_permissions_def
        spec_key_permissions_def jwt_permissions_eq key_permissions_all
        list_all_iff subset_iff split: prod.splits option.splits)
qed

lemma require_roles_eq:
  "fst (require_roles rr cfg credentials api_key d now) =
     (if set rr \<inter> spec_effective_roles cfg credentials api_key d now \<noteq> {} then Inr True
      else Inl (HTTPException 403 (''Missing required roles: '' @ repr_list rr) []))"
proof (cases credentials)
  case None
  then show ?thesis
    by (auto simp: require_roles_def spec_effective_roles_def
        spec_key_roles_def spec_token_roles_def key_roles_def
        list_ex_iff split: prod.splits option.splits)
next
  case (Some tok)
  then show ?thesis
    by (auto simp: require_roles_def spec_effective_roles_def
        spec_key_roles_def jwt_roles_eq key_roles_def
        list_ex_iff split: prod.splits option.splits)
qed

text \<open>
  C4: the permission check succeeds exactly when every required name is in the effective
  permission set (all-of) and the role check exactly when some required name is in the
  effective role set (any-of); otherwise each raises 403. The effective sets are those of the
  spec: key-derived when a key yields something, else token-embedded.
\<close>

theorem access_control_checks:
  "fst (require_permissions rp cfg credentials api_key d now) =
     (if set rp \<subseteq> spec_effective_permissions cfg credentials api_key d now then Inr True
      else Inl (HTTPException 403 (''Missing required permissions: '' @ repr_list rp) []))
   \<and> fst (require_roles rr cfg credentials api_key d now) =
     (if set rr \<inter> spec_effective_roles cfg credentials api_key d now \<noteq> {} then Inr True
      else Inl (HTTPException 403 (''Missing required roles: '' @ repr_list rr) []))"
  by (simp add: require_permissions_eq require_roles_eq)

lemma eff_perms_alice_key:
  "spec_effective_permissions ex_cfg None (Some ''KA'') ex_db 3 = {''users:read'', ''users:write''}"
  by (simp add: spec_effective_permissions_def spec_key_permissions_def validate_alice_key_at_3
      all_permissions_def)
     (auto simp: alice_key_def admin_role_def users_read_def users_write_def)

lemma eff_roles_alice_key:
  "spec_effective_roles ex_cfg None (Some ''KA'') ex_db 3 = {''admin''}"
  by (simp add: spec_effective_roles_def spec_key_roles_def validate_alice_key_at_3)
     (simp add: alice_key_def admin_role_def)

lemma repr_str_examples:
  "repr_str ''users:delete'' = [CHR 0x27] @ ''users:delete'' @ [CHR 0x27]"
  "repr_str ''viewer'' = [CHR 0x27] @ ''viewer'' @ [CHR 0x27]"
  by (simp_all add: repr_str_def repr_quote_def repr_char_def)

theorem access_control_checks_witness:
  "fst (require_permissions [''users:write''] ex_cfg None (Some ''KA'') ex_db 3) = Inr True \<and>
   fst (require_permissions [''users:delete''] ex_cfg None (Some ''KA'') ex_db 3) =
     Inl (HTTPException 403 ''Missing required permissions: ['users:delete']'' []) \<and>
   fst (require_roles [''viewer'', ''admin''] ex_cfg None (Some ''KA'') ex_db 3) = Inr True \<and>
   fst (require_roles [''viewer''] ex_cfg None (Some ''KA'') ex_db 3) =
     Inl (HTTPException 403 ''Missing required roles: ['viewer']'' [])"
  using access_control_checks [of "[''users:write'']" ex_cfg None "Some ''KA''" ex_db 3 "[''viewer'', ''admin'']"]
    access_control_checks [of "[''users:delete'']" ex_cfg None "Some ''KA''" ex_db 3 "[''viewer'']"]
  by (simp add: eff_perms_alice_key eff_roles_alice_key repr_list_def repr_str_examples)


section \<open>Ownership of API keys\<close>

lemma CRUDBase_get_None: "CRUDBase_get d i = None \<longleftrightarrow> i \<notin> k_id ` set (api_keys d)"
  by (auto simp: CRUDBase_get_def find_None_iff)

text \<open>
  C7: \<^verbatim>\<open>get_api_key\<close>, \<^verbatim>\<open>delete_api_key\<close> and \<^verbatim>\<open>toggle_api_key\<close> answer with the same 404
  "API key not found", and leave the store as it is, when no key has the id and when the key
  belongs to somebody else; on the caller's own key they succeed; and the listing holds
  exactly the caller's keys.
\<close>

theorem lifecycle_not_found:
  "(CRUDBase_get d i = None \<or> (\<exists>k. CRUDBase_get d i = Some k \<and> k_user_id k \<noteq> Some uid) \<longrightarrow>
      get_api_key d i uid = Inl (HTTPException 404 ''API key not found'' []) \<and>
      delete_api_key d i uid = (Inl (HTTPException 404 ''API key not found'' []), d) \<and>
      toggle_api_key d i uid act = (Inl (HTTPException 404 ''API key not found'' []), d))
   \<and> (CRUDBase_get d i = Some k \<and> k_user_id k = Some uid \<longrightarrow>
      get_api_key d i uid = Inr k \<and>
      delete_api_key d i uid = (Inr (), CRUDBase_remove d i) \<and>
      (\<exists>k'. fst (toggle_api_key d i uid act) = Inr k' \<and> k_is_active k' = act))
   \<and> (CRUDBase_get d i = None \<longleftrightarrow> i \<notin> k_id ` set (api_keys d))
   \<and> set (get_user_api_keys d uid) = {k \<in> set (api_keys d). k_user_id k = Some uid}"
proof (intro conjI impI)
  assume "CRUDBase_get d i = None \<or> (\<exists>k. CRUDBase_get d i = Some k \<and> k_user_id k \<noteq> Some uid)"
  then show "get_api_key d i uid = Inl (HTTPException 404 ''API key not found'' [])"
    and "delete_api_key d i uid = (Inl (HTTPException 404 ''API key not found'' []), d)"
    and "toggle_api_key d i uid act = (Inl (HTTPException 404 ''API key not found'' []), d)"
    by (auto simp: get_api_key_def delete_api_key_def toggle_api_key_def not_found_def)
next
  assume h: "CRUDBase_get d i = Some k \<and> k_user_id k = Some uid"
  then show "get_api_key d i uid = Inr k"
    and "delete_api_key d i uid = (Inr (), CRUDBase_remove d i)"
    by (simp_all add: get_api_key_def delete_api_key_def)
  from h show "\<exists>k'. fst (toggle_api_key d i uid act) = Inr k' \<and> k_is_active k' = act"
    by (auto simp: toggle_api_key_def activate_def deactivate_def)
next
  show "CRUDBase_get d i = None \<longleftrightarrow> i \<notin> k_id ` set (api_keys d)"
    by (rule CRUDBase_get_None)
  show "set (get_user_api_keys d uid) = {k \<in> set (api_keys d). k_user_id k = Some uid}"
    by (auto simp: get_user_api_keys_def get_by_user_def)
qed

lemma get_alice_key: "CRUDBase_get ex_db 1 = Some alice_key"
  by (simp add: CRUDBase_get_def ex_db_def alice_key_def)

lemma get_no_key: "CRUDBase_get ex_db 7 = None"
  by (simp add: CRUDBase_get_def ex_db_def alice_key_def bob_key_def)

theorem lifecycle_not_found_witness:
  "get_api_key ex_db 1 2 = Inl (HTTPException 404 ''API key not found'' []) \<and>
   get_api_key ex_db 7 2 = Inl (HTTPException 404 ''API key not found'' []) \<and>
   delete_api_key ex_db 1 2 = (Inl (HTTPException 404 ''API key not found'' []), ex_db) \<and>
   toggle_api_key ex_db 1 2 False = (Inl (HTTPException 404 ''API key not found'' []), ex_db) \<and>
   get_api_key ex_db 1 1 = Inr alice_key"
  using lifecycle_not_found [of ex_db 1 2 False alice_key]
    lifecycle_not_found [of ex_db 7 2 False alice_key]
    lifecycle_not_found [of ex_db 1 1 False alice_key]
  by (simp add: get_alice_key get_no_key) (simp add: alice_key_def)

section \<open>Identity reconciliation\<close>

lemma fold_max_ge: "a \<le> fold max xs (a::int)"
  by (induction xs arbitrary: a) (auto intro: order_trans [OF max.cobounded2])

lemma fold_max_mem: "x \<in> set xs \<Longrightarrow> x \<le> fold max xs (a::int)"
proof (induction xs arbitrary: a)
  case Nil
  then show ?case by simp
next
  case (Cons y ys)
  show ?case
  proof (cases "x = y")
    case True
    have "y \<le> max y a" by simp
    also have "\<dots> \<le> fold max ys (max y a)" by (rule fold_max_ge)
    finally show ?thesis using True by simp
  next
    case False
    with Cons show ?thesis by simp
  qed
qed

lemma fresh_id_fresh: "fresh_id xs \<notin> set xs"
proof
  assume "fresh_id xs \<in> set xs"
  then have "fresh_id xs \<le> fold max xs 0" by (rule fold_max_mem)
  then show False by (simp add: fresh_id_def)
qed

lemma find_append:
  "find P (xs @ ys) = (case find P xs of None \<Rightarrow> find P ys | Some x \<Rightarrow> Some x)"
  by (induction xs) auto

lemma find_map_preserving:
  "(\<And>x. P (g x) = P x) \<Longrightarrow> find P (map g xs) = map_option g (find P xs)"
  by (induction xs) auto

lemma get_by_email_None: "get_by_email d email = None \<longleftrightarrow> email \<notin> u_email ` set (users d)"
  by (auto simp: get_by_email_def find_None_iff)

lemma update_user_fresh:
  "i \<notin> u_id ` set xs \<Longrightarrow> map (\<lambda>r. if u_id r = i then g r else r) xs = xs"
  by (induction xs) auto

lemma link_of_None: "link_of d uid p = None \<longleftrightarrow> (uid, p) \<notin> link_key ` set (oauth_accounts d)"
  by (auto simp: link_of_def link_key_def find_None_iff image_iff)

lemma link_of_Some: "link_of d uid p = Some a \<Longrightarrow> a \<in> set (oauth_accounts d) \<and> link_key a = (uid, p)"
  by (auto simp: link_of_def link_key_def find_Some_iff)

lemma link_frame:
  "users (link_oauth_account d u provider puid at rt pd) = users d \<and>
   api_keys (link_oauth_account d u provider puid at rt pd) = api_keys d \<and>
   roles (link_oauth_account d u provider puid at rt pd) = roles d \<and>
   db_now (link_oauth_account d u provider puid at rt pd) = db_now d"
  by (simp add: link_oauth_account_def update_oauth_account_def Let_def split: option.splits)

lemma link_new:
  "link_of d (u_id u) provider = None \<Longrightarrow>
   link_oauth_account d u provider puid at rt pd =
     d\<lparr>oauth_accounts := oauth_accounts d @ [new_link d (u_id u) provider puid at rt pd]\<rparr>"
  by (simp add: link_oauth_account_def link_of_def new_link_def)

lemma refreshed_eq:
  "(let r1 = r\<lparr>o_access_token := Some at\<rparr>;
        r2 = (if truthy rt then r1\<lparr>o_refresh_token := rt\<rparr> else r1)
    in if truthy pd then r2\<lparr>o_provider_data := pd\<rparr> else r2) = refreshed at rt pd r"
  by (simp add: refreshed_def Let_def)

lemma link_existing:
  "link_of d (u_id u) provider = Some oa \<Longrightarrow>
   link_oauth_account d u provider puid at rt pd =
     d\<lparr>oauth_accounts :=
         map (\<lambda>r. if o_id r = o_id oa \<and> refreshed at rt pd oa \<noteq> oa
                  then (refreshed at rt pd r)\<lparr>o_updated_at := Some (db_now d)\<rparr> else r)
             (oauth_accounts d)\<rparr>"
  by (simp add: link_oauth_account_def link_of_def refreshed_eq del: Let_def)
     (simp add: Let_def update_oauth_account_def)

lemma link_key_refreshed [simp]:
  "link_key ((refreshed at rt pd r)\<lparr>o_updated_at := x\<rparr>) = link_key r"
  "link_key (refreshed at rt pd r) = link_key r"
  by (simp_all add: link_key_def refreshed_def)

lemma link_existing_keys:
  "link_of d (u_id u) provider = Some oa \<Longrightarrow>
   map link_key (oauth_accounts (link_oauth_account d u provider puid at rt pd)) =
     map link_key (oauth_accounts d)"
  by (simp add: link_existing)

lemma link_existing_lookup:
  assumes "link_of d (u_id u) provider = Some oa"
  shows "link_of (link_oauth_account d u provider puid at rt pd) (u_id u) provider =
           Some (if refreshed at rt pd oa = oa then oa
                 else (refreshed at rt pd oa)\<lparr>o_updated_at := Some (db_now d)\<rparr>)"
proof -
  let ?g = "\<lambda>r. if o_id r = o_id oa \<and> refreshed at rt pd oa \<noteq> oa
                 then (refreshed at rt pd r)\<lparr>o_updated_at := Some (db_now d)\<rparr> else r"
  let ?P = "\<lambda>a. o_user_id a = u_id u \<and> o_provider a = provider"
  have "\<And>x. ?P (?g x) = ?P x" by (simp add: refreshed_def)
  then have "find ?P (map ?g (oauth_accounts d)) = map_option ?g (find ?P (oauth_accounts d))"
    by (rule find_map_preserving)
  then show ?thesis
    using assms by (simp add: link_existing [OF assms] link_of_def)
qed

lemma link_new_keys:
  "link_of d (u_id u) provider = None \<Longrightarrow>
   map link_key (oauth_accounts (link_oauth_account d u provider puid at rt pd)) =
     map link_key (oauth_accounts d) @ [(u_id u, provider)]"
  by (simp add: link_new new_link_def link_key_def)

lemma link_keys:
  "link_key ` set (oauth_accounts (link_oauth_account d u provider puid at rt pd)) =
     insert (u_id u, provider) (link_key ` set (oauth_accounts d))"
proof (cases "link_of d (u_id u) provider")
  case None
  have "set (map link_key (oauth_accounts (link_oauth_account d u provider puid at rt pd))) =
        set (map link_key (oauth_accounts d) @ [(u_id u, provider)])"
    by (simp only: link_new_keys [OF None])
  then show ?thesis by simp
next
  case (Some oa)
  have "set (map link_key (oauth_accounts (link_oauth_account d u provider puid at rt pd))) =
        set (map link_key (oauth_accounts d))"
    by (simp only: link_existing_keys [OF Some])
  moreover have "(u_id u, provider) \<in> link_key ` set (oauth_accounts d)"
    using link_of_Some [OF Some] by force
  ultimately show ?thesis by auto
qed

lemma link_distinct:
  "distinct (map link_key (oauth_accounts d)) \<Longrightarrow>
   distinct (map link_key (oauth_accounts (link_oauth_account d u provider puid at rt pd)))"
proof (cases "link_of d (u_id u) provider")
  case None
  assume "distinct (map link_key (oauth_accounts d))"
  then show ?thesis using None by (simp add: link_new_keys [OF None] link_of_None)
next
  case (Some oa)
  assume "distinct (map link_key (oauth_accounts d))"
  then show ?thesis by (simp only: link_existing_keys [OF Some])
qed
lemma new_oauth_user_eq:
  "new_oauth_user EmailStr d email fn av =
     (case EmailStr email of
        None \<Rightarrow> Inl ValidationError
      | Some e \<Rightarrow>
          if e \<in> u_email ` set (users d) then Inl IntegrityError
          else (let u = \<lparr>u_id = fresh_id (map u_id (users d)), u_email = e,
                         u_full_name = (if truthy fn then fn
                                        else Some (takeWhile (\<lambda>c. c \<noteq> CHR ''@'') email)),
                         u_avatar_url = av, u_is_active = True, u_is_superuser = False,
                         u_created_at = db_now d,
                         u_updated_at = (if av = None then None else Some (db_now d)),
                         u_roles = (case find (\<lambda>r. r_name r = ''user'') (roles d) of
                                      Some r \<Rightarrow> [r] | None \<Rightarrow> [])\<rparr>
                in Inr (u, d\<lparr>users := users d @ [u]\<rparr>)))"
proof (cases "EmailStr email")
  case None
  then show ?thesis by (simp add: new_oauth_user_def)
next
  case (Some e)
  show ?thesis
  proof (cases "e \<in> u_email ` set (users d)")
    case True
    then show ?thesis using Some by (auto simp: new_oauth_user_def create_with_role_def Let_def)
  next
    case False
    have fresh: "fresh_id (map u_id (users d)) \<notin> u_id ` set (users d)"
      using fresh_id_fresh [of "map u_id (users d)"] by simp
    show ?thesis
      using Some False
      by (cases "find (\<lambda>r. r_name r = ''user'') (roles d)")
         (auto simp: new_oauth_user_def create_with_role_def Let_def update_user_def
                     update_user_fresh [OF fresh])
  qed
qed

lemma new_oauth_user_success:
  assumes "new_oauth_user EmailStr d email fn av = Inr (u, d1)"
  shows "d1 = d\<lparr>users := users d @ [u]\<rparr> \<and> u_id u \<notin> u_id ` set (users d) \<and>
         EmailStr email = Some (u_email u) \<and> u_email u \<notin> u_email ` set (users d) \<and>
         u_is_active u \<and> \<not> u_is_superuser u \<and> u_avatar_url u = av \<and>
         u_roles u = (case find (\<lambda>r. r_name r = ''user'') (roles d) of
                        Some r \<Rightarrow> [r] | None \<Rightarrow> [])"
proof -
  have fresh: "fresh_id (map u_id (users d)) \<notin> u_id ` set (users d)"
    using fresh_id_fresh [of "map u_id (users d)"] by simp
  show ?thesis
    using assms fresh
    by (auto simp: new_oauth_user_eq Let_def split: option.splits if_splits)
qed

lemma new_oauth_user_succeeds:
  assumes "get_by_email d email = None" "EmailStr email = Some email"
  shows "\<exists>u d1. new_oauth_user EmailStr d email fn av = Inr (u, d1)"
  using assms by (simp add: new_oauth_user_eq get_by_email_None Let_def)

lemma reconcile_existing:
  "get_by_email d email = Some u0 \<Longrightarrow>
   create_or_get_user_from_oauth EmailStr d provider email fn av puid at rt pd =
     Inr (u0, link_oauth_account d u0 provider puid at rt pd)"
  by (simp add: create_or_get_user_from_oauth_def)

lemma reconcile_success:
  assumes "create_or_get_user_from_oauth EmailStr d provider email fn av puid at rt pd = Inr (u, d')"
  shows "\<exists>d1. d' = link_oauth_account d1 u provider puid at rt pd \<and>
           ((get_by_email d email = Some u \<and> d1 = d) \<or>
            (get_by_email d email = None \<and> new_oauth_user EmailStr d email fn av = Inr (u, d1)))"
  using assms
  by (auto simp: create_or_get_user_from_oauth_def split: option.splits sum.splits)

lemma reconcile_frame:
  assumes "create_or_get_user_from_oauth EmailStr d provider email fn av puid at rt pd = Inr (u, d')"
  shows "(users d' = users d \<or> users d' = users d @ [u]) \<and> api_keys d' = api_keys d \<and>
         roles d' = roles d \<and> db_now d' = db_now d \<and>
         (\<exists>d1. d' = link_oauth_account d1 u provider puid at rt pd \<and>
               oauth_accounts d1 = oauth_accounts d \<and> db_now d1 = db_now d)"
proof -
  obtain d1 where d': "d' = link_oauth_account d1 u provider puid at rt pd"
    and c: "(get_by_email d email = Some u \<and> d1 = d) \<or>
            (get_by_email d email = None \<and> new_oauth_user EmailStr d email fn av = Inr (u, d1))"
    using reconcile_success [OF assms] by blast
  have "d1 = d \<or> d1 = d\<lparr>users := users d @ [u]\<rparr>"
    using c new_oauth_user_success by blast
  then show ?thesis
    using d' link_frame [of d1 u provider puid at rt pd] by auto
qed

lemma reconcile_lookup:
  assumes "create_or_get_user_from_oauth EmailStr d provider email fn av puid at rt pd = Inr (u, d')"
    and "get_by_email d email \<noteq> None \<or> EmailStr email = Some email"
  shows "get_by_email d' email = Some u"
proof -
  obtain d1 where d': "d' = link_oauth_account d1 u provider puid at rt pd"
    and c: "(get_by_email d email = Some u \<and> d1 = d) \<or>
            (get_by_email d email = None \<and> new_oauth_user EmailStr d email fn av = Inr (u, d1))"
    using reconcile_success [OF assms(1)] by blast
  have u': "users d' = users d1" using d' link_frame [of d1 u provider puid at rt pd] by simp
  from c show ?thesis
  proof
    assume "get_by_email d email = Some u \<and> d1 = d"
    then show ?thesis using u' by (simp add: get_by_email_def)
  next
    assume n: "get_by_email d email = None \<and> new_oauth_user EmailStr d email fn av = Inr (u, d1)"
    then have s: "d1 = d\<lparr>users := users d @ [u]\<rparr>" "EmailStr email = Some (u_email u)"
      using new_oauth_user_success by blast+
    then have "u_email u = email" using assms(2) n by simp
    then show ?thesis using n s u' by (simp add: get_by_email_def find_append)
  qed
qed
lemma reconcile_links:
  assumes "create_or_get_user_from_oauth EmailStr d provider email fn av puid at rt pd = Inr (u, d')"
  shows "link_key ` set (oauth_accounts d') =
           insert (u_id u, provider) (link_key ` set (oauth_accounts d))"
    and "link_of d (u_id u) provider = None \<Longrightarrow>
           oauth_accounts d' =
             oauth_accounts d @ [new_link d (u_id u) provider puid at rt pd]"
    and "link_of d (u_id u) provider = Some oa \<Longrightarrow>
           map link_key (oauth_accounts d') = map link_key (oauth_accounts d) \<and>
           link_of d' (u_id u) provider =
             Some (if refreshed at rt pd oa = oa then oa
                   else (refreshed at rt pd oa)\<lparr>o_updated_at := Some (db_now d)\<rparr>)"
    and "distinct (map link_key (oauth_accounts d)) \<Longrightarrow>
           distinct (map link_key (oauth_accounts d'))"
proof -
  obtain d1 where d': "d' = link_oauth_account d1 u provider puid at rt pd"
    and o: "oauth_accounts d1 = oauth_accounts d" and n: "db_now d1 = db_now d"
    using reconcile_frame [OF assms] by blast
  have l: "link_of d1 = link_of d" by (simp add: link_of_def o fun_eq_iff)
  have nl: "new_link d1 = new_link d" by (simp add: new_link_def o n fun_eq_iff)
  show "link_key ` set (oauth_accounts d') =
           insert (u_id u, provider) (link_key ` set (oauth_accounts d))"
    using link_keys [of d1 u provider puid at rt pd] d' o by simp
  show "oauth_accounts d' = oauth_accounts d @ [new_link d (u_id u) provider puid at rt pd]"
    if "link_of d (u_id u) provider = None"
    using that link_new [of d1 u provider puid at rt pd] d' o l nl by simp
  show "map link_key (oauth_accounts d') = map link_key (oauth_accounts d) \<and>
           link_of d' (u_id u) provider =
             Some (if refreshed at rt pd oa = oa then oa
                   else (refreshed at rt pd oa)\<lparr>o_updated_at := Some (db_now d)\<rparr>)"
    if "link_of d (u_id u) provider = Some oa"
    using that link_existing_keys [of d1 u provider oa puid at rt pd]
      link_existing_lookup [of d1 u provider oa puid at rt pd] d' o l n by simp
  show "distinct (map link_key (oauth_accounts d'))"
    if "distinct (map link_key (oauth_accounts d))"
    using that link_distinct [of d1 u provider puid at rt pd] d' o by simp
qed

lemma reconcile_two_providers:
  assumes r1: "create_or_get_user_from_oauth EmailStr d p1 email fn av puid at rt pd = Inr (u, d1)"
    and h: "get_by_email d email \<noteq> None \<or> EmailStr email = Some email"
    and ne: "p1 \<noteq> p2"
  shows "\<exists>d2 a1 a2.
           create_or_get_user_from_oauth EmailStr d1 p2 email fn2 av2 puid2 at2 rt2 pd2 = Inr (u, d2) \<and>
           users d2 = users d1 \<and>
           link_of d2 (u_id u) p1 = Some a1 \<and> link_of d2 (u_id u) p2 = Some a2 \<and> a1 \<noteq> a2"
proof -
  let ?d2 = "link_oauth_account d1 u p2 puid2 at2 rt2 pd2"
  have g: "get_by_email d1 email = Some u" by (rule reconcile_lookup [OF r1 h])
  then have r2: "create_or_get_user_from_oauth EmailStr d1 p2 email fn2 av2 puid2 at2 rt2 pd2 =
                   Inr (u, ?d2)"
    by (rule reconcile_existing)
  have k1: "(u_id u, p1) \<in> link_key ` set (oauth_accounts d1)"
    using reconcile_links(1) [OF r1] by simp
  have k2: "link_key ` set (oauth_accounts ?d2) =
              insert (u_id u, p2) (link_key ` set (oauth_accounts d1))"
    by (rule link_keys)
  have "link_of ?d2 (u_id u) p1 \<noteq> None" using k1 k2 by (simp add: link_of_None)
  then obtain a1 where a1: "link_of ?d2 (u_id u) p1 = Some a1" by auto
  have "link_of ?d2 (u_id u) p2 \<noteq> None" using k2 by (simp add: link_of_None)
  then obtain a2 where a2: "link_of ?d2 (u_id u) p2 = Some a2" by auto
  have "link_key a1 = (u_id u, p1)" "link_key a2 = (u_id u, p2)"
    using link_of_Some [OF a1] link_of_Some [OF a2] by simp_all
  then have "a1 \<noteq> a2" using ne by auto
  moreover have "users ?d2 = users d1" using link_frame [of d1 u p2 puid2 at2 rt2 pd2] by simp
  ultimately show ?thesis using r2 a1 a2 by blast
qed

lemma carol_unknown: "get_by_email ex_db ''carol@example.com'' = None"
  by (simp add: get_by_email_def ex_db_def alice_def bob_def)

lemma carol_first_login:
  "create_or_get_user_from_oauth Some ex_db ''google'' ''carol@example.com'' None
     (Some ''https://img.example.com/c'') ''g-42'' ''ya29'' None None =
   Inr (carol, ex_db\<lparr>users := [alice, bob, carol], oauth_accounts := [carol_google]\<rparr>)"
  by (simp add: create_or_get_user_from_oauth_def carol_unknown new_oauth_user_eq)
     (simp add: ex_db_def alice_def bob_def carol_def carol_google_def user_role_def
        admin_role_def fresh_id_def link_oauth_account_def Let_def)

lemma carol_without_role:
  "create_or_get_user_from_oauth Some (ex_db\<lparr>roles := [admin_role]\<rparr>) ''google''
     ''carol@example.com'' None (Some ''https://img.example.com/c'') ''g-42'' ''ya29'' None None =
   Inr (carol\<lparr>u_roles := []\<rparr>,
        ex_db\<lparr>users := [alice, bob, carol\<lparr>u_roles := []\<rparr>], oauth_accounts := [carol_google],
               roles := [admin_role]\<rparr>)"
  by (simp add: create_or_get_user_from_oauth_def new_oauth_user_eq get_by_email_def
        ex_db_def alice_def bob_def carol_def carol_google_def user_role_def
        admin_role_def fresh_id_def link_oauth_account_def Let_def)

text \<open>
  C9, as the spec states it, fails on a store that holds no role named \<^verbatim>\<open>user\<close>:
  \<^verbatim>\<open>create_with_role\<close> attaches the role under \<^verbatim>\<open>if role:\<close> only, so the Principal is
  created without any role.
\<close>

theorem oauth_user_without_role:
  "create_or_get_user_from_oauth Some (ex_db\<lparr>roles := [admin_role]\<rparr>) ''google''
     ''carol@example.com'' None (Some ''https://img.example.com/c'') ''g-42'' ''ya29'' None None =
   Inr (carol\<lparr>u_roles := []\<rparr>,
        ex_db\<lparr>users := [alice, bob, carol\<lparr>u_roles := []\<rparr>], oauth_accounts := [carol_google],
               roles := [admin_role]\<rparr>)
   \<and> u_roles (carol\<lparr>u_roles := []\<rparr>) = []"
  by (simp add: carol_without_role)

text \<open>
  C9, amended: for every profile whose email address the schema validator \<^verbatim>\<open>EmailStr\<close>
  accepts and returns unchanged, reconciliation looks the Principal up by email. If one is
  stored, it is returned and no Principal is created or changed. If none is stored, one is
  created as the last row, with a new id, active, not superuser, and with the role \<^verbatim>\<open>user\<close>
  when a role of that name is stored, otherwise with no role. In either case API keys and
  roles are untouched, no Principal and no link is removed, and the link of
  (principal, provider) exists afterwards: it is inserted with the given tokens and profile
  when the pair had none; when the pair had one, the links keep their number and pairs, and
  that link now carries the new access token, and the new refresh token and provider data
  when these are non-empty. A store with at most one link per pair stays so. Two logins with
  the same such email through two different providers return the same Principal, and
  afterwards that Principal has two distinct links, one per provider. What happens at an
  address that the validator refuses or rewrites is not part of this statement.
\<close>

theorem oauth_reconciliation:
  "(get_by_email d email = Some u0 \<longrightarrow>
      (\<exists>d'. create_or_get_user_from_oauth EmailStr d p1 email fn av puid at rt pd = Inr (u0, d') \<and>
            users d' = users d))
   \<and> (get_by_email d email = None \<and> EmailStr email = Some email \<longrightarrow>
      (\<exists>u' d'. create_or_get_user_from_oauth EmailStr d p1 email fn av puid at rt pd = Inr (u', d') \<and>
            users d' = users d @ [u'] \<and> u_id u' \<notin> u_id ` set (users d) \<and> u_email u' = email \<and>
            u_is_active u' \<and> \<not> u_is_superuser u' \<and>
            u_roles u' = (case find (\<lambda>r. r_name r = ''user'') (roles d) of
                            Some r \<Rightarrow> [r] | None \<Rightarrow> [])))
   \<and> (create_or_get_user_from_oauth EmailStr d p1 email fn av puid at rt pd = Inr (u, d1) \<longrightarrow>
        (users d1 = users d \<or> users d1 = users d @ [u]) \<and>
        api_keys d1 = api_keys d \<and> roles d1 = roles d \<and>
        link_key ` set (oauth_accounts d1) =
          insert (u_id u, p1) (link_key ` set (oauth_accounts d)) \<and>
        (link_of d (u_id u) p1 = None \<longrightarrow>
           oauth_accounts d1 = oauth_accounts d @ [new_link d (u_id u) p1 puid at rt pd]) \<and>
        (link_of d (u_id u) p1 = Some oa \<longrightarrow>
           map link_key (oauth_accounts d1) = map link_key (oauth_accounts d) \<and>
           link_of d1 (u_id u) p1 =
             Some (if refreshed at rt pd oa = oa then oa
                   else (refreshed at rt pd oa)\<lparr>o_updated_at := Some (db_now d)\<rparr>)) \<and>
        (distinct (map link_key (oauth_accounts d)) \<longrightarrow>
           distinct (map link_key (oauth_accounts d1))))
   \<and> (create_or_get_user_from_oauth EmailStr d p1 email fn av puid at rt pd = Inr (u, d1) \<and>
       (get_by_email d email \<noteq> None \<or> EmailStr email = Some email) \<and> p1 \<noteq> p2 \<longrightarrow>
        (\<exists>d2 a1 a2.
           create_or_get_user_from_oauth EmailStr d1 p2 email fn2 av2 puid2 at2 rt2 pd2 =
             Inr (u, d2) \<and>
           users d2 = users d1 \<and>
           link_of d2 (u_id u) p1 = Some a1 \<and> link_of d2 (u_id u) p2 = Some a2 \<and> a1 \<noteq> a2))"
proof (intro conjI)
  show "get_by_email d email = Some u0 \<longrightarrow>
      (\<exists>d'. create_or_get_user_from_oauth EmailStr d p1 email fn av puid at rt pd = Inr (u0, d') \<and>
            users d' = users d)"
    using link_frame [of d u0 p1 puid at rt pd] by (simp add: reconcile_existing)
  show "get_by_email d email = None \<and> EmailStr email = Some email \<longrightarrow>
      (\<exists>u' d'. create_or_get_user_from_oauth EmailStr d p1 email fn av puid at rt pd = Inr (u', d') \<and>
            users d' = users d @ [u'] \<and> u_id u' \<notin> u_id ` set (users d) \<and> u_email u' = email \<and>
            u_is_active u' \<and> \<not> u_is_superuser u' \<and>
            u_roles u' = (case find (\<lambda>r. r_name r = ''user'') (roles d) of
                            Some r \<Rightarrow> [r] | None \<Rightarrow> []))"
  proof
    assume a: "get_by_email d email = None \<and> EmailStr email = Some email"
    then obtain u' dn where n: "new_oauth_user EmailStr d email fn av = Inr (u', dn)"
      using new_oauth_user_succeeds [of d email EmailStr fn av] by blast
    have s: "dn = d\<lparr>users := users d @ [u']\<rparr>" "u_id u' \<notin> u_id ` set (users d)"
      "EmailStr email = Some (u_email u')" "u_is_active u'" "\<not> u_is_superuser u'"
      "u_roles u' = (case find (\<lambda>r. r_name r = ''user'') (roles d) of
                       Some r \<Rightarrow> [r] | None \<Rightarrow> [])"
      using new_oauth_user_success [OF n] by simp_all
    have "create_or_get_user_from_oauth EmailStr d p1 email fn av puid at rt pd =
            Inr (u', link_oauth_account dn u' p1 puid at rt pd)"
      using a n by (simp add: create_or_get_user_from_oauth_def)
    moreover have "users (link_oauth_account dn u' p1 puid at rt pd) = users d @ [u']"
      using link_frame [of dn u' p1 puid at rt pd] s(1) by simp
    moreover have "u_email u' = email" using a s(3) by simp
    ultimately show "\<exists>u' d'.
        create_or_get_user_from_oauth EmailStr d p1 email fn av puid at rt pd = Inr (u', d') \<and>
        users d' = users d @ [u'] \<and> u_id u' \<notin> u_id ` set (users d) \<and> u_email u' = email \<and>
        u_is_active u' \<and> \<not> u_is_superuser u' \<and>
        u_roles u' = (case find (\<lambda>r. r_name r = ''user'') (roles d) of
                        Some r \<Rightarrow> [r] | None \<Rightarrow> [])"
      using s by blast
  qed
  show "create_or_get_user_from_oauth EmailStr d p1 email fn av puid at rt pd = Inr (u, d1) \<longrightarrow>
        (users d1 = users d \<or> users d1 = users d @ [u]) \<and>
        api_keys d1 = api_keys d \<and> roles d1 = roles d \<and>
        link_key ` set (oauth_accounts d1) =
          insert (u_id u, p1) (link_key ` set (oauth_accounts d)) \<and>
        (link_of d (u_id u) p1 = None \<longrightarrow>
           oauth_accounts d1 = oauth_accounts d @ [new_link d (u_id u) p1 puid at rt pd]) \<and>
        (link_of d (u_id u) p1 = Some oa \<longrightarrow>
           map link_key (oauth_accounts d1) = map link_key (oauth_accounts d) \<and>
           link_of d1 (u_id u) p1 =
             Some (if refreshed at rt pd oa = oa then oa
                   else (refreshed at rt pd oa)\<lparr>o_updated_at := Some (db_now d)\<rparr>)) \<and>
        (distinct (map link_key (oauth_accounts d)) \<longrightarrow>
           distinct (map link_key (oauth_accounts d1)))"
  proof
    assume r: "create_or_get_user_from_oauth EmailStr d p1 email fn av puid at rt pd = Inr (u, d1)"
    show "(users d1 = users d \<or> users d1 = users d @ [u]) \<and>
        api_keys d1 = api_keys d \<and> roles d1 = roles d \<and>
        link_key ` set (oauth_accounts d1) =
          insert (u_id u, p1) (link_key ` set (oauth_accounts d)) \<and>
        (link_of d (u_id u) p1 = None \<longrightarrow>
           oauth_accounts d1 = oauth_accounts d @ [new_link d (u_id u) p1 puid at rt pd]) \<and>
        (link_of d (u_id u) p1 = Some oa \<longrightarrow>
           map link_key (oauth_accounts d1) = map link_key (oauth_accounts d) \<and>
           link_of d1 (u_id u) p1 =
             Some (if refreshed at rt pd oa = oa then oa
                   else (refreshed at rt pd oa)\<lparr>o_updated_at := Some (db_now d)\<rparr>)) \<and>
        (distinct (map link_key (oauth_accounts d)) \<longrightarrow>
           distinct (map link_key (oauth_accounts d1)))"
      using reconcile_frame [OF r] reconcile_links(1) [OF r] reconcile_links(2) [OF r]
        reconcile_links(3) [OF r, of oa] reconcile_links(4) [OF r]
      by blast
  qed
  show "create_or_get_user_from_oauth EmailStr d p1 email fn av puid at rt pd = Inr (u, d1) \<and>
       (get_by_email d email \<noteq> None \<or> EmailStr email = Some email) \<and> p1 \<noteq> p2 \<longrightarrow>
        (\<exists>d2 a1 a2.
           create_or_get_user_from_oauth EmailStr d1 p2 email fn2 av2 puid2 at2 rt2 pd2 =
             Inr (u, d2) \<and>
           users d2 = users d1 \<and>
           link_of d2 (u_id u) p1 = Some a1 \<and> link_of d2 (u_id u) p2 = Some a2 \<and> a1 \<noteq> a2)"
    using reconcile_two_providers [of EmailStr d p1 email fn av puid at rt pd u d1 p2]
    by blast
qed
lemma carol_known: "get_by_email carol_db ''carol@example.com'' = Some carol"
  by (simp add: get_by_email_def carol_db_def ex_db_def alice_def bob_def carol_def)

lemma carol_link: "link_of carol_db 3 ''google'' = Some carol_google"
  by (simp add: link_of_def carol_db_def carol_google_def)

lemma carol_second_login:
  "create_or_get_user_from_oauth Some carol_db ''google'' ''carol@example.com'' None None
     ''g-42'' ''ya30'' (Some ''1//rt'') None =
   Inr (carol, carol_db\<lparr>oauth_accounts :=
          [carol_google\<lparr>o_access_token := Some ''ya30'', o_refresh_token := Some ''1//rt'',
                         o_updated_at := Some 99\<rparr>]\<rparr>)"
  by (simp add: reconcile_existing [OF carol_known] link_existing [where oa = carol_google])
     (simp add: carol_db_def carol_def carol_google_def ex_db_def link_existing link_of_def
        refreshed_def)

lemma carol_refreshed:
  "refreshed ''ya30'' (Some ''1//rt'') None carol_google =
     carol_google\<lparr>o_access_token := Some ''ya30'', o_refresh_token := Some ''1//rt''\<rparr>"
  "carol_google\<lparr>o_access_token := Some ''ya30'', o_refresh_token := Some ''1//rt''\<rparr>
     \<noteq> carol_google"
  by (simp_all add: refreshed_def carol_google_def)

lemma carol_facts: "u_id carol = 3" "db_now carol_db = 99"
  by (simp_all add: carol_def carol_db_def ex_db_def)

theorem oauth_reconciliation_witness:
  "create_or_get_user_from_oauth Some ex_db ''google'' ''carol@example.com'' None
     (Some ''https://img.example.com/c'') ''g-42'' ''ya29'' None None = Inr (carol, carol_db)
   \<and> (\<exists>d2 a1 a2.
        create_or_get_user_from_oauth Some carol_db ''github'' ''carol@example.com''
          (Some ''Carol'') None ''gh-7'' ''gho'' None None = Inr (carol, d2) \<and>
        users d2 = users carol_db \<and>
        link_of d2 3 ''google'' = Some a1 \<and> link_of d2 3 ''github'' = Some a2 \<and> a1 \<noteq> a2)
   \<and> (\<exists>d2. create_or_get_user_from_oauth Some carol_db ''google'' ''carol@example.com'' None
               None ''g-42'' ''ya30'' (Some ''1//rt'') None = Inr (carol, d2) \<and>
            map link_key (oauth_accounts d2) = map link_key (oauth_accounts carol_db) \<and>
            link_of d2 3 ''google'' =
              Some (carol_google\<lparr>o_access_token := Some ''ya30'',
                      o_refresh_token := Some ''1//rt'', o_updated_at := Some 99\<rparr>))"
proof (intro conjI)
  show first: "create_or_get_user_from_oauth Some ex_db ''google'' ''carol@example.com'' None
     (Some ''https://img.example.com/c'') ''g-42'' ''ya29'' None None = Inr (carol, carol_db)"
    by (simp add: carol_first_login carol_db_def)
  show "\<exists>d2 a1 a2.
        create_or_get_user_from_oauth Some carol_db ''github'' ''carol@example.com''
          (Some ''Carol'') None ''gh-7'' ''gho'' None None = Inr (carol, d2) \<and>
        users d2 = users carol_db \<and>
        link_of d2 3 ''google'' = Some a1 \<and> link_of d2 3 ''github'' = Some a2 \<and> a1 \<noteq> a2"
    using oauth_reconciliation [where EmailStr = Some and d = ex_db and ?p1.0 = "''google''"
      and email = "''carol@example.com''" and fn = None
      and av = "Some ''https://img.example.com/c''" and puid = "''g-42''" and at = "''ya29''"
      and rt = None and pd = None and u = carol and ?d1.0 = carol_db
      and ?p2.0 = "''github''" and ?fn2.0 = "Some ''Carol''" and ?av2.0 = None
      and ?puid2.0 = "''gh-7''" and ?at2.0 = "''gho''" and ?rt2.0 = None and ?pd2.0 = None,
      THEN conjunct2, THEN conjunct2, THEN conjunct2]
    by (simp add: first carol_facts)
  show "\<exists>d2. create_or_get_user_from_oauth Some carol_db ''google'' ''carol@example.com'' None
               None ''g-42'' ''ya30'' (Some ''1//rt'') None = Inr (carol, d2) \<and>
            map link_key (oauth_accounts d2) = map link_key (oauth_accounts carol_db) \<and>
            link_of d2 3 ''google'' =
              Some (carol_google\<lparr>o_access_token := Some ''ya30'',
                      o_refresh_token := Some ''1//rt'', o_updated_at := Some 99\<rparr>)"
    using oauth_reconciliation [where EmailStr = Some and d = carol_db and ?p1.0 = "''google''"
      and email = "''carol@example.com''" and fn = None
      and av = None and puid = "''g-42''" and at = "''ya30''"
      and rt = "Some ''1//rt''" and pd = None and u = carol and oa = carol_google
      and ?d1.0 = "carol_db\<lparr>oauth_accounts :=
          [carol_google\<lparr>o_access_token := Some ''ya30'', o_refresh_token := Some ''1//rt'',
                         o_updated_at := Some 99\<rparr>]\<rparr>",
      THEN conjunct2, THEN conjunct2, THEN conjunct1]
    by (simp add: carol_second_login carol_facts carol_link carol_refreshed)
qed

text \<open>
  Outside that statement, a defect: the lookup uses the address as the provider sent it,
  while \<^verbatim>\<open>create_with_role\<close> stores the address as the validator returned it. When the two
  differ, the first login creates the Principal under the rewritten address, and the second
  login with the same profile does not find it, tries to create it again and fails on the
  unique email. An address that the validator refuses raises its validation error.
\<close>

lemma rewritten_address_breaks_second_login:
  "create_or_get_user_from_oauth ex_EmailStr ex_db ''google'' ''carol@Example.COM'' None
     (Some ''https://img.example.com/c'') ''g-42'' ''ya29'' None None = Inr (carol, carol_db)
   \<and> create_or_get_user_from_oauth ex_EmailStr carol_db ''github'' ''carol@Example.COM'' None
     None ''gh-7'' ''gho'' None None = Inl IntegrityError
   \<and> create_or_get_user_from_oauth ex_EmailStr ex_db ''google'' ''nobody'' None
     None ''g-43'' ''ya29'' None None = Inl ValidationError"
  by (simp add: create_or_get_user_from_oauth_def new_oauth_user_eq get_by_email_def
        ex_EmailStr_def carol_db_def ex_db_def alice_def bob_def carol_def carol_google_def
        user_role_def admin_role_def fresh_id_def link_oauth_account_def Let_def)

end
